theory Spec2Isabelle
  imports Main "HOL-Library.Word" "HOL-Library.Sublist"
begin

unbundle bit_operations_syntax

section \<open>Library types used by package query\<close>

text \<open>
  \<^verbatim>\<open>net.IP\<close> and \<^verbatim>\<open>net.IPMask\<close> are byte slices; the nil slice is the empty list.
  \<^verbatim>\<open>time.Time\<close> is an instant, modelled as the number of nanoseconds since the zero
  instant (January 1, year 1, 00:00:00 UTC), so that \<^verbatim>\<open>IsZero\<close> is equality with 0,
  \<^verbatim>\<open>Before\<close>/\<^verbatim>\<open>After\<close> are the order of the integers and \<^verbatim>\<open>Add\<close> is addition.
  \<^verbatim>\<open>time.Duration\<close> is a number of nanoseconds.
\<close>

type_synonym byte = "8 word"
type_synonym net_IP = "byte list"
type_synonym net_IPMask = "byte list"
type_synonym Time = int
type_synonym Duration = int

definition IsZero :: "Time \<Rightarrow> bool" where
  "IsZero t = (t = 0)"

definition Before :: "Time \<Rightarrow> Time \<Rightarrow> bool" where
  "Before t u = (t < u)"

definition After :: "Time \<Rightarrow> Time \<Rightarrow> bool" where
  "After t u = (t > u)"

definition Add :: "Time \<Rightarrow> Duration \<Rightarrow> Time" where
  "Add t d = t + d"

definition Minute :: Duration where
  "Minute = 60 * 1000000000"

text \<open>\<^verbatim>\<open>time.Unix(0, nsec)\<close>: the Unix epoch is 62135596800 seconds after the zero instant.\<close>

definition Unix_nsec :: "int \<Rightarrow> Time" where
  "Unix_nsec nsec = 62135596800 * 1000000000 + nsec"

text \<open>Multiplication of two \<^verbatim>\<open>int64\<close> values wraps around in two's complement.\<close>

definition mul_int64 :: "int \<Rightarrow> int \<Rightarrow> int" where
  "mul_int64 a b = sint (word_of_int (a * b) :: 64 word)"

text \<open>
  The parsers of the standard library that the lexer calls on a literal are parameters of
  the model: \<^verbatim>\<open>time.Parse(time.RFC3339, s)\<close>, \<^verbatim>\<open>net.ParseIP(s)\<close> and
  \<^verbatim>\<open>time.ParseDuration(s)\<close>, each with \<open>None\<close> for its error result.
\<close>

record stdlib =
  time_Parse :: "string \<Rightarrow> Time option"
  net_ParseIP :: "string \<Rightarrow> net_IP option"
  time_ParseDuration :: "string \<Rightarrow> Duration option"

text \<open>
  \<^verbatim>\<open>strconv.ParseInt(s, 10, 64)\<close>: an optional sign, then decimal digits only; \<open>None\<close> for
  a syntax or range error. \<^verbatim>\<open>strconv.Atoi\<close> is the same function where \<^verbatim>\<open>int\<close> has 64 bits.
\<close>

definition isDigit :: "char \<Rightarrow> bool" where
  "isDigit c = (c \<in> set ''0123456789'')"

definition digitVal :: "char \<Rightarrow> int" where
  "digitVal c = of_char c - 48"

definition decimal :: "string \<Rightarrow> int" where
  "decimal ds = foldl (\<lambda>n c. n * 10 + digitVal c) 0 ds"

definition ParseInt :: "string \<Rightarrow> int option" where
  "ParseInt s =
     (case s of
        [] \<Rightarrow> None
      | c # cs \<Rightarrow>
          (let neg = (c = CHR ''-'');
               ds = (if c = CHR ''+'' \<or> c = CHR ''-'' then cs else s)
           in if ds = [] \<or> \<not> list_all isDigit ds then None
              else let un = decimal ds
                   in if \<not> neg \<and> un \<ge> 2 ^ 63 then None
                      else if neg \<and> un > 2 ^ 63 then None
                      else Some (if neg then - un else un)))"

definition Atoi :: "string \<Rightarrow> int option" where
  "Atoi s = ParseInt s"

text \<open>\<^verbatim>\<open>filepath.Base\<close> on a system whose separator is the slash.\<close>

definition Base :: "string \<Rightarrow> string" where
  "Base path =
     (if path = [] then ''.''
      else let stripped = rev (dropWhile (\<lambda>c. c = CHR ''/'') (rev path));
               last = rev (takeWhile (\<lambda>c. c \<noteq> CHR ''/'') (rev stripped))
           in if last = [] then ''/'' else last)"

text \<open>\<^verbatim>\<open>net.IP.To4\<close>: the 4-byte form of an IPv4 address, \<open>None\<close> for nil.\<close>

definition To4 :: "net_IP \<Rightarrow> net_IP option" where
  "To4 a =
     (if length a = 4 then Some a
      else if length a = 16 \<and> list_all (\<lambda>b. b = 0) (take 10 a) \<and> a ! 10 = 255 \<and> a ! 11 = 255
      then Some (drop 12 a)
      else None)"

text \<open>\<^verbatim>\<open>net.CIDRMask(ones, bits)\<close>: \<open>ones\<close> leading one bits in \<open>bits\<close> bits; nil when invalid.\<close>

definition CIDRMask :: "int \<Rightarrow> int \<Rightarrow> net_IPMask" where
  "CIDRMask ones bits =
     (if bits \<noteq> 32 \<and> bits \<noteq> 128 then []
      else if ones < 0 \<or> ones > bits then []
      else map (\<lambda>i. if ones \<ge> 8 * (int i + 1) then 255
                     else if ones \<le> 8 * int i then 0
                     else NOT (drop_bit (nat (ones - 8 * int i)) (255 :: byte)))
             [0 ..< nat (bits div 8)])"

section \<open>Mask arithmetic: \<^verbatim>\<open>ipsFromNet\<close>\<close>

datatype message =
    SyntaxError
  | BadTime string
  | BadIP string
  | BadDuration string
  | InvalidPort int
  | InvalidVlan int
  | InvalidMpls int
  | InvalidProto int
  | BadCidr net_IP int
  | BadIPOrMask net_IP net_IPMask
  | TimestampOrder Time Time

function ipsFromNet_loop :: "net_IP \<Rightarrow> net_IPMask \<Rightarrow> nat \<Rightarrow> net_IP \<Rightarrow> net_IP \<Rightarrow> net_IP \<times> net_IP" where
  "ipsFromNet_loop ip msk i frm to =
     (if i < length ip
      then ipsFromNet_loop ip msk (Suc i)
             (frm[i := (ip ! i) AND (msk ! i)])
             (to[i := (ip ! i) OR NOT (msk ! i)])
      else (frm, to))"
  by pat_completeness auto
termination
  by (relation "measure (\<lambda>(ip, msk, i, frm, to). length ip - i)") auto

declare ipsFromNet_loop.simps [simp del]

definition ipsFromNet :: "net_IP \<Rightarrow> net_IPMask \<Rightarrow> message + (net_IP \<times> net_IP)" where
  "ipsFromNet ip msk =
     (if length ip \<noteq> length msk \<or> (length ip \<noteq> 4 \<and> length ip \<noteq> 16)
      then Inl (BadIPOrMask ip msk)
      else Inr (ipsFromNet_loop ip msk 0 (replicate (length ip) 0) (replicate (length ip) 0)))"

section \<open>The query tree\<close>

datatype query =
    portQuery "16 word"
  | vlanQuery "16 word"
  | mplsQuery "32 word"
  | protocolQuery "8 word"
  | ipQuery net_IP net_IP
  | unionQuery "query list"
  | intersectQuery "query list"
  | timeQuery Time Time

subsection \<open>\<^verbatim>\<open>GetTimeSpan\<close>\<close>

definition timeQuery_GetTimeSpan :: "Time \<Rightarrow> Time \<Rightarrow> Time \<Rightarrow> Time \<Rightarrow> Time \<times> Time" where
  "timeQuery_GetTimeSpan a0 a1 startTime stopTime =
     (let hasStartTime = \<not> IsZero a0;
          startTime2 = Add a0 (- Minute);
          hasStopTime = \<not> IsZero a1;
          stopTime2 = Add a1 Minute;
          startTime' = (if hasStartTime \<and> (IsZero startTime \<or> After startTime startTime2)
                        then startTime2 else startTime);
          stopTime' = (if hasStopTime \<and> (IsZero stopTime \<or> Before stopTime stopTime2)
                       then stopTime2 else stopTime)
      in (startTime', stopTime'))"

fun GetTimeSpan :: "query \<Rightarrow> Time \<Rightarrow> Time \<Rightarrow> Time \<times> Time" where
  "GetTimeSpan (portQuery q) startTime stopTime = (startTime, stopTime)"
| "GetTimeSpan (vlanQuery q) startTime stopTime = (startTime, stopTime)"
| "GetTimeSpan (mplsQuery q) startTime stopTime = (startTime, stopTime)"
| "GetTimeSpan (protocolQuery q) startTime stopTime = (startTime, stopTime)"
| "GetTimeSpan (ipQuery q0 q1) startTime stopTime = (startTime, stopTime)"
| "GetTimeSpan (unionQuery a) startTime stopTime =
     fold (\<lambda>q st. GetTimeSpan q (fst st) (snd st)) a (startTime, stopTime)"
| "GetTimeSpan (intersectQuery a) startTime stopTime =
     fold (\<lambda>q st. GetTimeSpan q (fst st) (snd st)) a (startTime, stopTime)"
| "GetTimeSpan (timeQuery a0 a1) startTime stopTime =
     timeQuery_GetTimeSpan a0 a1 startTime stopTime"

subsection \<open>\<^verbatim>\<open>LookupIn\<close>\<close>

text \<open>
  Modelled from the spec: packages \<^verbatim>\<open>indexfile\<close> and \<^verbatim>\<open>base\<close> are not part of the
  source at hand. Section 6 of the specification gives the index as a name and five
  field lookups, each returning a position set or an error, and the position sets as
  union, intersection and the two sentinels for all positions and no positions.
  The context argument only carries cancellation, which a lookup reports as its error.
\<close>

record ('p, 'e) IndexFile =
  Name :: string
  PortPositions :: "16 word \<Rightarrow> 'e + 'p"
  VLANPositions :: "16 word \<Rightarrow> 'e + 'p"
  MPLSPositions :: "32 word \<Rightarrow> 'e + 'p"
  ProtoPositions :: "8 word \<Rightarrow> 'e + 'p"
  IPPositions :: "net_IP \<Rightarrow> net_IP \<Rightarrow> 'e + 'p"

record 'p base =
  AllPositions :: 'p
  NoPositions :: 'p
  nilPositions :: 'p
  Union :: "'p \<Rightarrow> 'p \<Rightarrow> 'p"
  Intersect :: "'p \<Rightarrow> 'p \<Rightarrow> 'p"

datatype 'e lookup_error =
    CouldNotParseBasename string
  | IndexError 'e

definition fileTime :: "int \<Rightarrow> Time" where
  "fileTime intval = Unix_nsec (mul_int64 intval 1000)"

definition timeQuery_LookupIn ::
  "'p base \<Rightarrow> Time \<Rightarrow> Time \<Rightarrow> ('p, 'e) IndexFile \<Rightarrow> 'e lookup_error + 'p" where
  "timeQuery_LookupIn B a0 a1 index =
     (let last = Base (Name index) in
      case ParseInt last of
        None \<Rightarrow> Inl (CouldNotParseBasename last)
      | Some intval \<Rightarrow>
          (let ft = fileTime intval;
               hasStartTime = \<not> IsZero a0;
               startTime = Add a0 (- Minute);
               hasStopTime = \<not> IsZero a1;
               stopTime = Add a1 Minute
           in if hasStartTime \<and> hasStopTime
              then (if Before ft startTime \<or> After ft stopTime
                    then Inr (NoPositions B) else Inr (AllPositions B))
              else if hasStartTime \<and> Before ft startTime then Inr (NoPositions B)
              else if hasStopTime \<and> After ft stopTime then Inr (NoPositions B)
              else Inr (AllPositions B)))"

definition liftIndex :: "'e + 'p \<Rightarrow> 'e lookup_error + 'p" where
  "liftIndex r = (case r of Inl e \<Rightarrow> Inl (IndexError e) | Inr p \<Rightarrow> Inr p)"

fun LookupIn :: "'p base \<Rightarrow> query \<Rightarrow> ('p, 'e) IndexFile \<Rightarrow> 'e lookup_error + 'p" where
  "LookupIn B (portQuery q) index = liftIndex (PortPositions index q)"
| "LookupIn B (vlanQuery q) index = liftIndex (VLANPositions index q)"
| "LookupIn B (mplsQuery q) index = liftIndex (MPLSPositions index q)"
| "LookupIn B (protocolQuery q) index = liftIndex (ProtoPositions index q)"
| "LookupIn B (ipQuery q0 q1) index = liftIndex (IPPositions index q0 q1)"
| "LookupIn B (unionQuery a) index =
     fold (\<lambda>q acc. case acc of
                      Inl e \<Rightarrow> Inl e
                    | Inr positions \<Rightarrow>
                        (case LookupIn B q index of
                           Inl e \<Rightarrow> Inl e
                         | Inr pos \<Rightarrow> Inr (Union B positions pos)))
          a (Inr (nilPositions B))"
| "LookupIn B (intersectQuery a) index =
     fold (\<lambda>q acc. case acc of
                      Inl e \<Rightarrow> Inl e
                    | Inr positions \<Rightarrow>
                        (case LookupIn B q index of
                           Inl e \<Rightarrow> Inl e
                         | Inr pos \<Rightarrow> Inr (Intersect B positions pos)))
          a (Inr (AllPositions B))"
| "LookupIn B (timeQuery a0 a1) index = timeQuery_LookupIn B a0 a1 index"

section \<open>The lexer\<close>

definition HOST :: int where "HOST = 57346"
definition PORT :: int where "PORT = 57347"
definition PROTO :: int where "PROTO = 57348"
definition AND_tok :: int where "AND_tok = 57349"
definition OR_tok :: int where "OR_tok = 57350"
definition NET :: int where "NET = 57351"
definition MASK :: int where "MASK = 57352"
definition TCP :: int where "TCP = 57353"
definition UDP :: int where "UDP = 57354"
definition ICMP :: int where "ICMP = 57355"
definition BEFORE :: int where "BEFORE = 57356"
definition AFTER :: int where "AFTER = 57357"
definition IPP :: int where "IPP = 57358"
definition AGO :: int where "AGO = 57359"
definition VLAN :: int where "VLAN = 57360"
definition MPLS :: int where "MPLS = 57361"
definition BETWEEN :: int where "BETWEEN = 57362"
definition IP :: int where "IP = 57363"
definition NUM :: int where "NUM = 57364"
definition DURATION :: int where "DURATION = 57365"
definition TIME :: int where "TIME = 57366"

lemmas token_defs =
  HOST_def PORT_def PROTO_def AND_tok_def OR_tok_def NET_def MASK_def TCP_def UDP_def
  ICMP_def BEFORE_def AFTER_def IPP_def AGO_def VLAN_def MPLS_def BETWEEN_def IP_def
  NUM_def DURATION_def TIME_def

record parserSymType =
  yys :: int
  num :: int
  ip :: net_IP
  str :: string
  query :: "query option"
  dur :: Duration
  time :: Time

datatype error = ErrorAt message nat string string

record parserLex =
  now :: Time
  inp :: string
  pos :: nat
  out :: "query option"
  err :: "error option"
  startTime :: Time
  stopTime :: Time

text \<open>
  The keyword map, in the order of the source. Go ranges over a map in no fixed order;
  no keyword is a prefix of another (lemma \<open>tokens_prefix_free\<close>), so at most one
  keyword matches and the order does not matter.
\<close>

definition tokens :: "(string \<times> int) list" where
  "tokens =
     [(''after'', AFTER), (''ago'', AGO), (''&&'', AND_tok), (''and'', AND_tok),
      (''before'', BEFORE), (''host'', HOST), (''icmp'', ICMP), (''ip'', IPP),
      (''mask'', MASK), (''net'', NET), (''||'', OR_tok), (''or'', OR_tok),
      (''port'', PORT), (''vlan'', VLAN), (''mpls'', MPLS), (''proto'', PROTO),
      (''tcp'', TCP), (''udp'', UDP), (''between'', BETWEEN)]"

text \<open>\<^verbatim>\<open>unicode.IsSpace\<close> on a byte converted to a rune (the Latin-1 range).\<close>

definition IsSpace :: "char \<Rightarrow> bool" where
  "IsSpace c = ((of_char c :: nat) \<in> {9, 10, 11, 12, 13, 32, 133, 160})"

definition HasPrefix :: "string \<Rightarrow> string \<Rightarrow> bool" where
  "HasPrefix s t = (length t \<le> length s \<and> take (length t) s = t)"

text \<open>
  The loops of \<^verbatim>\<open>Lex\<close> advance \<^verbatim>\<open>x.pos\<close> over the input; each is a recursion over the
  unread suffix \<^verbatim>\<open>x.in[x.pos:]\<close> that carries the position.
\<close>

fun skipSpace :: "string \<Rightarrow> nat \<Rightarrow> nat" where
  "skipSpace [] p = p"
| "skipSpace (c # cs) p = (if IsSpace c then skipSpace cs (Suc p) else p)"

fun findToken :: "(string \<times> int) list \<Rightarrow> string \<Rightarrow> (string \<times> int) option" where
  "findToken [] s = None"
| "findToken ((t, i) # ts) s = (if HasPrefix s t then Some (t, i) else findToken ts s)"

text \<open>The character classes of the \<^verbatim>\<open>switch\<close> in the loop labelled \<^verbatim>\<open>L\<close>.\<close>

definition isIPChar :: "char \<Rightarrow> bool" where
  "isIPChar c = (c \<in> set '':.'')"

definition isHexChar :: "char \<Rightarrow> bool" where
  "isHexChar c = (c \<in> set ''0123456789abcdef'')"

definition isDurationChar :: "char \<Rightarrow> bool" where
  "isDurationChar c = (c \<in> set ''mh'')"

definition isTimeChar :: "char \<Rightarrow> bool" where
  "isTimeChar c = (c \<in> set ''-T+Z'')"

text \<open>The loop labelled \<^verbatim>\<open>L\<close>: position, then the flags isIP, isDuration, isTime.\<close>

fun scanLiteral :: "string \<Rightarrow> nat \<Rightarrow> bool \<Rightarrow> bool \<Rightarrow> bool \<Rightarrow> nat \<times> bool \<times> bool \<times> bool" where
  "scanLiteral [] p isIP isDuration isTime = (p, isIP, isDuration, isTime)"
| "scanLiteral (c # cs) p isIP isDuration isTime =
     (if isIPChar c then scanLiteral cs (Suc p) True isDuration isTime
      else if isHexChar c then scanLiteral cs (Suc p) isIP isDuration isTime
      else if isDurationChar c then (Suc p, isIP, True, isTime)
      else if isTimeChar c then scanLiteral cs (Suc p) isIP isDuration True
      else (p, isIP, isDuration, isTime))"

definition Error :: "parserLex \<Rightarrow> message \<Rightarrow> parserLex" where
  "Error x s =
     (if err x = None
      then x\<lparr>err := Some (ErrorAt s (pos x) (take (pos x) (inp x)) (drop (pos x) (inp x)))\<rparr>
      else x)"

definition isPunct :: "char \<Rightarrow> bool" where
  "isPunct c = (c \<in> set '':.()/'')"

definition Lex :: "stdlib \<Rightarrow> parserLex \<Rightarrow> parserSymType \<Rightarrow> int \<times> parserLex \<times> parserSymType" where
  "Lex L x yylval =
     (let p0 = skipSpace (drop (pos x) (inp x)) (pos x) in
      case findToken tokens (drop p0 (inp x)) of
        Some (t, i) \<Rightarrow> (i, x\<lparr>pos := p0 + length t\<rparr>, yylval)
      | None \<Rightarrow>
          (let s = p0;
               (p, isIP, isDuration, isTime) = scanLiteral (drop s (inp x)) s False False False;
               part = take (p - s) (drop s (inp x));
               x = x\<lparr>pos := p\<rparr>
           in if isTime then
                (case time_Parse L part of
                   None \<Rightarrow> (TIME, Error x (BadTime part), yylval\<lparr>time := 0\<rparr>)
                 | Some t \<Rightarrow> (TIME, x, yylval\<lparr>time := t\<rparr>))
              else if isIP then
                (case net_ParseIP L part of
                   None \<Rightarrow> (- 1, Error x (BadIP part), yylval\<lparr>ip := []\<rparr>)
                 | Some a \<Rightarrow>
                     (IP, x, yylval\<lparr>ip := (case To4 a of Some ip4 \<Rightarrow> ip4 | None \<Rightarrow> a)\<rparr>))
              else if isDuration then
                (case time_ParseDuration L part of
                   None \<Rightarrow> (DURATION, Error x (BadDuration part), yylval\<lparr>dur := 0\<rparr>)
                 | Some duration \<Rightarrow> (DURATION, x, yylval\<lparr>dur := duration\<rparr>))
              else if p \<noteq> s then
                (case Atoi part of
                   None \<Rightarrow> (- 1, x, yylval)
                 | Some n \<Rightarrow> (NUM, x, yylval\<lparr>num := n\<rparr>))
              else if p \<ge> length (inp x) then (0, x, yylval)
              else (let c = inp x ! p
                    in if isPunct c then (of_char c, x\<lparr>pos := Suc p\<rparr>, yylval)
                       else (- 1, x, yylval))))"

definition HandleBetween :: "parserLex \<Rightarrow> Time \<Rightarrow> Time \<Rightarrow> parserLex" where
  "HandleBetween x startTime' stopTime' =
     (let x = (if IsZero (startTime x) \<or> After (startTime x) startTime'
               then x\<lparr>startTime := startTime'\<rparr> else x)
      in if IsZero (stopTime x) \<or> Before (stopTime x) stopTime'
         then x\<lparr>stopTime := stopTime'\<rparr> else x)"

definition HandleAfter :: "parserLex \<Rightarrow> Time \<Rightarrow> parserLex" where
  "HandleAfter x after =
     (if IsZero (startTime x) \<or> After (startTime x) after then x\<lparr>startTime := after\<rparr> else x)"

definition HandleBefore :: "parserLex \<Rightarrow> Time \<Rightarrow> parserLex" where
  "HandleBefore x before =
     (if IsZero (stopTime x) \<or> Before (stopTime x) before then x\<lparr>stopTime := before\<rparr> else x)"

section \<open>The generated parser\<close>

definition parserExca :: "int list" where
  "parserExca = [-1, 1, 1, -1, -2, 0]"

definition parserPrivate :: int where "parserPrivate = 57344"
definition parserLast :: int where "parserLast = 44"
definition parserFlag :: int where "parserFlag = - 1000"
definition parserEofCode :: int where "parserEofCode = 1"
definition parserErrCode :: int where "parserErrCode = 2"

definition parserAct :: "int list" where
  "parserAct =
     [26, 28, 27, 39, 35, 33, 17, 18, 22, 21,
      20, 40, 24, 4, 5, 3, 29, 30, 9, 34,
      11, 12, 13, 14, 15, 8, 36, 6, 7, 16,
      37, 19, 2, 31, 32, 10, 17, 18, 38, 41,
      23, 1, 0, 25]"

definition parserPact :: "int list" where
  "parserPact =
     [9, -1000, 29, -1000, 10, -12, -13, -14, 34, -9,
      9, -1000, -1000, -1000, -22, -22, -22, 9, 9, -1000,
      -1000, -1000, -1000, -17, -6, -1, -1000, -1000, 13, -1000,
      31, -1000, -1000, -1000, -19, -10, -1000, -1000, -22, -1000,
      -1000, -1000]"

definition parserPgo :: "int list" where
  "parserPgo = [0, 41, 32, 15, 0]"

definition parserR1 :: "int list" where
  "parserR1 =
     [0, 1, 2, 2, 2, 3, 3, 3, 3, 3,
      3, 3, 3, 3, 3, 3, 3, 3, 3, 4,
      4]"

definition parserR2 :: "int list" where
  "parserR2 =
     [0, 1, 1, 3, 3, 2, 2, 2, 2, 3,
      4, 4, 3, 1, 1, 1, 2, 2, 4, 1,
      2]"

definition parserChk :: "int list" where
  "parserChk =
     [-1000, -1, -2, -3, 4, 5, 18, 19, 16, 9,
      26, 11, 12, 13, 14, 15, 20, 7, 8, 21,
      22, 22, 22, 6, 21, -2, -4, 24, 23, -4,
      -4, -3, -3, 22, 25, 10, 27, 17, 7, 22,
      21, -4]"

definition parserDef :: "int list" where
  "parserDef =
     [0, -2, 1, 2, 0, 0, 0, 0, 0, 0,
      0, 13, 14, 15, 0, 0, 0, 0, 0, 5,
      6, 7, 8, 0, 0, 0, 16, 19, 0, 17,
      0, 3, 4, 9, 0, 0, 12, 20, 0, 10,
      11, 18]"

definition parserTok1 :: "int list" where
  "parserTok1 =
     [1, 3, 3, 3, 3, 3, 3, 3, 3, 3,
      3, 3, 3, 3, 3, 3, 3, 3, 3, 3,
      3, 3, 3, 3, 3, 3, 3, 3, 3, 3,
      3, 3, 3, 3, 3, 3, 3, 3, 3, 3,
      26, 27, 3, 3, 3, 3, 3, 25]"

definition parserTok2 :: "int list" where
  "parserTok2 =
     [2, 3, 4, 5, 6, 7, 8, 9, 10, 11,
      12, 13, 14, 15, 16, 17, 18, 19, 20, 21,
      22, 23, 24]"

definition parserTok3 :: "int list" where
  "parserTok3 = [0]"

text \<open>
  A read of a table: \<open>None\<close> where the index is out of range and Go panics.
\<close>

definition at :: "int list \<Rightarrow> int \<Rightarrow> int option" where
  "at tbl i = (if 0 \<le> i \<and> i < int (length tbl) then Some (tbl ! nat i) else None)"

text \<open>
  \<^verbatim>\<open>parserlex1\<close>, after the call of \<^verbatim>\<open>Lex\<close>: the token number of a character code. The
  loop over \<^verbatim>\<open>parserTok3\<close> (one entry, 0) leaves \<open>token = 0\<close>, as a code above 0 is never
  equal to that entry.
\<close>

definition parserTranslate :: "int \<Rightarrow> int" where
  "parserTranslate char =
     (let token =
        (if char \<le> 0 then parserTok1 ! 0
         else if char < int (length parserTok1) then parserTok1 ! nat char
         else if char \<ge> parserPrivate \<and> char < parserPrivate + int (length parserTok2)
         then parserTok2 ! nat (char - parserPrivate)
         else parserTok3 ! 0)
      in if token = 0 then parserTok2 ! 1 else token)"

definition zeroSym :: parserSymType where
  "zeroSym = \<lparr>yys = 0, num = 0, ip = [], str = [], query = None, dur = 0, time = 0\<rparr>"

datatype label = Parserstack | Parsernewstate

text \<open>
  The variables of \<^verbatim>\<open>Parse\<close>. The slice \<^verbatim>\<open>parserS\<close> is kept as two lists: \<open>live\<close> holds
  the entries at the indices \<^verbatim>\<open>parserp\<close>, \<^verbatim>\<open>parserp - 1\<close>, ..., 0 in this order, and
  \<open>above\<close> the entries at \<^verbatim>\<open>parserp + 1\<close>, \<^verbatim>\<open>parserp + 2\<close>, ... that earlier pushes
  left behind, without the zero entries that follow them (the slice grows on demand and
  starts out zeroed).
\<close>

record parserVars =
  parserlex :: parserLex
  lval :: parserSymType
  char :: int
  parsertoken :: int
  parserVAL :: parserSymType
  live :: "parserSymType list"
  above :: "parserSymType list"
  parserstate :: int
  Nerrs :: int
  Errflag :: int
  at_label :: label

datatype outcome = Continue parserVars | Return int parserVars | Panic

text \<open>The lookahead: \<^verbatim>\<open>parserlex1\<close> is called when no character is buffered.\<close>

definition lookahead :: "stdlib \<Rightarrow> parserVars \<Rightarrow> parserVars" where
  "lookahead L v =
     (if char v < 0
      then (case Lex L (parserlex v) (lval v) of
              (c, x, yylval) \<Rightarrow>
                v\<lparr>parserlex := x, lval := yylval, char := c, parsertoken := parserTranslate c\<rparr>)
      else v)"

text \<open>The two loops over the exception table; \<open>None\<close> where the index runs off the table.\<close>

fun exca_find :: "int list \<Rightarrow> int \<Rightarrow> int list option" where
  "exca_find (a # b # rest) st = (if a = - 1 \<and> b = st then Some rest else exca_find rest st)"
| "exca_find _ st = None"

fun exca_action :: "int list \<Rightarrow> int \<Rightarrow> int option" where
  "exca_action (a # b # rest) tok = (if a < 0 \<or> a = tok then Some b else exca_action rest tok)"
| "exca_action _ tok = None"

text \<open>
  The loop of error recovery: pop until a state shifts the \<^verbatim>\<open>error\<close> token. The outer
  \<open>None\<close> is a panic, the inner one the empty stack (\<^verbatim>\<open>goto ret1\<close>).
\<close>

fun recover ::
  "parserSymType list \<Rightarrow> parserSymType list \<Rightarrow>
   (int \<times> parserSymType list \<times> parserSymType list) option option" where
  "recover [] ab = Some None"
| "recover (e # es) ab =
     (case at parserPact (yys e) of
        None \<Rightarrow> None
      | Some pact \<Rightarrow>
          (let n = pact + parserErrCode in
           if n \<ge> 0 \<and> n < parserLast
           then (case at parserChk (parserAct ! nat n) of
                   None \<Rightarrow> None
                 | Some chk \<Rightarrow>
                     if chk = parserErrCode then Some (Some (parserAct ! nat n, e # es, ab))
                     else recover es (e # ab))
           else recover es (e # ab)))"

text \<open>
  The semantic actions, the \<^verbatim>\<open>switch parsernt\<close>; \<open>D\<close> is \<^verbatim>\<open>parserDollar\<close>. The datatype
  \<open>query\<close> has no nil value: \<open>None\<close> is returned where an action would store a nil
  \<^verbatim>\<open>Query\<close> as a child of a composite.
\<close>

definition ipQuery_of :: "message + (net_IP \<times> net_IP) \<Rightarrow> query" where
  "ipQuery_of r = (case r of Inl e \<Rightarrow> ipQuery [] [] | Inr (frm, to) \<Rightarrow> ipQuery frm to)"

definition Error_of :: "parserLex \<Rightarrow> message + (net_IP \<times> net_IP) \<Rightarrow> parserLex" where
  "Error_of x r = (case r of Inl e \<Rightarrow> Error x e | Inr _ \<Rightarrow> x)"

definition parserAction ::
  "int \<Rightarrow> parserSymType list \<Rightarrow> parserLex \<Rightarrow> parserSymType \<Rightarrow>
   (parserLex \<times> parserSymType) option" where
  "parserAction nt D x VAL =
     (if nt = 1 then Some (x\<lparr>out := query (D ! 1)\<rparr>, VAL)
      else if nt = 3 then
        (case (query (D ! 1), query (D ! 3)) of
           (Some l, Some r) \<Rightarrow> Some (x, VAL\<lparr>query := Some (intersectQuery [l, r])\<rparr>)
         | _ \<Rightarrow> None)
      else if nt = 4 then
        (case (query (D ! 1), query (D ! 3)) of
           (Some l, Some r) \<Rightarrow> Some (x, VAL\<lparr>query := Some (unionQuery [l, r])\<rparr>)
         | _ \<Rightarrow> None)
      else if nt = 5 then Some (x, VAL\<lparr>query := Some (ipQuery (ip (D ! 2)) (ip (D ! 2)))\<rparr>)
      else if nt = 6 then
        Some (if num (D ! 2) < 0 \<or> num (D ! 2) \<ge> 65536
              then Error x (InvalidPort (num (D ! 2))) else x,
              VAL\<lparr>query := Some (portQuery (word_of_int (num (D ! 2))))\<rparr>)
      else if nt = 7 then
        Some (if num (D ! 2) < 0 \<or> num (D ! 2) \<ge> 65536
              then Error x (InvalidVlan (num (D ! 2))) else x,
              VAL\<lparr>query := Some (vlanQuery (word_of_int (num (D ! 2))))\<rparr>)
      else if nt = 8 then
        Some (if num (D ! 2) < 0 \<or> num (D ! 2) \<ge> 2 ^ 20
              then Error x (InvalidMpls (num (D ! 2))) else x,
              VAL\<lparr>query := Some (mplsQuery (word_of_int (num (D ! 2))))\<rparr>)
      else if nt = 9 then
        Some (if num (D ! 3) < 0 \<or> num (D ! 3) \<ge> 256
              then Error x (InvalidProto (num (D ! 3))) else x,
              VAL\<lparr>query := Some (protocolQuery (word_of_int (num (D ! 3))))\<rparr>)
      else if nt = 10 then
        (let msk = CIDRMask (num (D ! 4)) (int (length (ip (D ! 2))) * 8);
             x = (if msk = [] then Error x (BadCidr (ip (D ! 2)) (num (D ! 4))) else x);
             r = ipsFromNet (ip (D ! 2)) msk
         in Some (Error_of x r, VAL\<lparr>query := Some (ipQuery_of r)\<rparr>))
      else if nt = 11 then
        (let r = ipsFromNet (ip (D ! 2)) (ip (D ! 4))
         in Some (Error_of x r, VAL\<lparr>query := Some (ipQuery_of r)\<rparr>))
      else if nt = 12 then Some (x, VAL\<lparr>query := query (D ! 2)\<rparr>)
      else if nt = 13 then Some (x, VAL\<lparr>query := Some (protocolQuery 6)\<rparr>)
      else if nt = 14 then Some (x, VAL\<lparr>query := Some (protocolQuery 17)\<rparr>)
      else if nt = 15 then Some (x, VAL\<lparr>query := Some (protocolQuery 1)\<rparr>)
      else if nt = 16 then
        Some (HandleBefore x (time (D ! 2)), VAL\<lparr>query := Some (timeQuery 0 (time (D ! 2)))\<rparr>)
      else if nt = 17 then
        Some (HandleAfter x (time (D ! 2)), VAL\<lparr>query := Some (timeQuery (time (D ! 2)) 0)\<rparr>)
      else if nt = 18 then
        (let x = (if After (time (D ! 2)) (time (D ! 4))
                  then Error x (TimestampOrder (time (D ! 2)) (time (D ! 4))) else x)
         in Some (HandleBetween x (time (D ! 2)) (time (D ! 4)),
                  VAL\<lparr>query := Some (timeQuery (time (D ! 2)) (time (D ! 4)))\<rparr>))
      else if nt = 19 then Some (x, VAL\<lparr>time := time (D ! 1)\<rparr>)
      else if nt = 20 then Some (x, VAL\<lparr>time := Add (now x) (- dur (D ! 1))\<rparr>)
      else Some (x, VAL))"

text \<open>A valid shift: the label \<^verbatim>\<open>parserstack\<close> is next.\<close>

definition shift :: "parserVars \<Rightarrow> int \<Rightarrow> parserVars" where
  "shift v n =
     v\<lparr>char := - 1, parsertoken := - 1, parserVAL := lval v, parserstate := n,
       Errflag := (if Errflag v > 0 then Errflag v - 1 else Errflag v),
       at_label := Parserstack\<rparr>"

text \<open>The consultation of the goto table after a reduction to \<open>lhs\<close> over state \<open>st\<close>.\<close>

definition goto_state :: "int \<Rightarrow> int \<Rightarrow> int option" where
  "goto_state lhs st =
     (case at parserPgo lhs of
        None \<Rightarrow> None
      | Some parserg \<Rightarrow>
          (let parserj = parserg + st + 1 in
           if parserj \<ge> parserLast then at parserAct parserg
           else (case at parserAct parserj of
                   None \<Rightarrow> None
                 | Some s \<Rightarrow>
                     (case at parserChk s of
                        None \<Rightarrow> None
                      | Some chk \<Rightarrow> if chk \<noteq> - lhs then at parserAct parserg else Some s))))"

text \<open>The reduction by production \<open>n\<close>.\<close>

definition reduce :: "parserVars \<Rightarrow> int \<Rightarrow> outcome" where
  "reduce v n =
     (case (at parserR2 n, at parserR1 n) of
        (Some r2, Some lhs) \<Rightarrow>
          (let k = nat r2 in
           if length (live v) \<le> k then Panic
           else
             (let live' = drop k (live v);
                  above' = rev (take k (live v)) @ above v;
                  VAL = (case above' of [] \<Rightarrow> zeroSym | e # _ \<Rightarrow> e);
                  D = hd live' # above'
              in case goto_state lhs (yys (hd live')) of
                   None \<Rightarrow> Panic
                 | Some st \<Rightarrow>
                     (case parserAction n D (parserlex v) VAL of
                        None \<Rightarrow> Panic
                      | Some (x, VAL') \<Rightarrow>
                          Continue (v\<lparr>parserlex := x, parserVAL := VAL', live := live',
                                      above := above', parserstate := st,
                                      at_label := Parserstack\<rparr>))))
      | _ \<Rightarrow> Panic)"

text \<open>The error case, \<^verbatim>\<open>parsern == 0\<close>; with \<^verbatim>\<open>parserErrorVerbose\<close> unset the message is fixed.\<close>

definition recovery :: "parserVars \<Rightarrow> outcome" where
  "recovery v =
     (let v = v\<lparr>Errflag := 3\<rparr> in
      case recover (live v) (above v) of
        None \<Rightarrow> Panic
      | Some None \<Rightarrow> Return 1 (v\<lparr>above := rev (live v) @ above v, live := []\<rparr>)
      | Some (Some (st, lv, ab)) \<Rightarrow>
          Continue (v\<lparr>parserstate := st, live := lv, above := ab, at_label := Parserstack\<rparr>))"

definition error_case :: "parserVars \<Rightarrow> outcome" where
  "error_case v =
     (if Errflag v = 0
      then recovery (v\<lparr>parserlex := Error (parserlex v) SyntaxError, Nerrs := Nerrs v + 1\<rparr>)
      else if Errflag v = 1 \<or> Errflag v = 2 then recovery v
      else if Errflag v = 3
      then (if parsertoken v = parserEofCode then Return 1 v
            else Continue (v\<lparr>char := - 1, parsertoken := - 1, at_label := Parsernewstate\<rparr>))
      else reduce v 0)"

definition act_on :: "parserVars \<Rightarrow> int \<Rightarrow> outcome" where
  "act_on v n = (if n = 0 then error_case v else reduce v n)"

text \<open>The label \<^verbatim>\<open>parserdefault\<close>.\<close>

definition parserdefault :: "stdlib \<Rightarrow> parserVars \<Rightarrow> outcome" where
  "parserdefault L v =
     (case at parserDef (parserstate v) of
        None \<Rightarrow> Panic
      | Some n \<Rightarrow>
          if n = - 2
          then (let v = lookahead L v in
                case exca_find parserExca (parserstate v) of
                  None \<Rightarrow> Panic
                | Some rest \<Rightarrow>
                    (case exca_action rest (parsertoken v) of
                       None \<Rightarrow> Panic
                     | Some n \<Rightarrow> if n < 0 then Return 0 v else act_on v n))
          else act_on v n)"

text \<open>The label \<^verbatim>\<open>parsernewstate\<close>.\<close>

definition parsernewstate :: "stdlib \<Rightarrow> parserVars \<Rightarrow> outcome" where
  "parsernewstate L v =
     (case at parserPact (parserstate v) of
        None \<Rightarrow> Panic
      | Some n \<Rightarrow>
          if n \<le> parserFlag then parserdefault L v
          else (let v = lookahead L v;
                    n = n + parsertoken v
                in if n < 0 \<or> n \<ge> parserLast then parserdefault L v
                   else (let n = parserAct ! nat n in
                         case at parserChk n of
                           None \<Rightarrow> Panic
                         | Some chk \<Rightarrow>
                             if chk = parsertoken v then Continue (shift v n)
                             else parserdefault L v)))"

text \<open>The label \<^verbatim>\<open>parserstack\<close>: push the state and the value, then \<^verbatim>\<open>parsernewstate\<close>.\<close>

definition push :: "parserVars \<Rightarrow> parserVars" where
  "push v = v\<lparr>live := (parserVAL v)\<lparr>yys := parserstate v\<rparr> # live v, above := tl (above v)\<rparr>"

definition step :: "stdlib \<Rightarrow> parserVars \<Rightarrow> outcome" where
  "step L v =
     (case at_label v of
        Parserstack \<Rightarrow> parsernewstate L (push v)
      | Parsernewstate \<Rightarrow> parsernewstate L v)"

datatype 'a completion = Returns 'a | Panics

partial_function (option) parserLoop :: "stdlib \<Rightarrow> parserVars \<Rightarrow> (int \<times> parserVars) completion option" where
  "parserLoop L v =
     (case step L v of
        Continue v' \<Rightarrow> parserLoop L v'
      | Return r v' \<Rightarrow> Some (Returns (r, v'))
      | Panic \<Rightarrow> Some Panics)"

declare parserLoop.simps [code]

definition initVars :: "parserLex \<Rightarrow> parserVars" where
  "initVars x =
     \<lparr>parserlex = x, lval = zeroSym, char = - 1, parsertoken = - 1, parserVAL = zeroSym,
      live = [], above = [], parserstate = 0, Nerrs = 0, Errflag = 0, at_label = Parserstack\<rparr>"

definition parserParse :: "stdlib \<Rightarrow> parserLex \<Rightarrow> (int \<times> parserLex) completion option" where
  "parserParse L x =
     (case parserLoop L (initVars x) of
        None \<Rightarrow> None
      | Some Panics \<Rightarrow> Some Panics
      | Some (Returns (r, v)) \<Rightarrow> Some (Returns (r, parserlex v)))"

text \<open>
  \<^verbatim>\<open>parse\<close>; the reading of the clock, \<^verbatim>\<open>time.Now()\<close>, is the argument \<open>now\<close>. The result
  is \<open>None\<close> if the parser does not come back, and \<open>Panics\<close> if it panics.
\<close>

definition initLex :: "Time \<Rightarrow> string \<Rightarrow> parserLex" where
  "initLex now' in' =
     \<lparr>now = now', inp = in', pos = 0, out = None, err = None, startTime = 0, stopTime = 0\<rparr>"

definition parse ::
  "stdlib \<Rightarrow> Time \<Rightarrow> string \<Rightarrow> (query option \<times> Time \<times> Time \<times> error option) completion option" where
  "parse L now' in' =
     (case parserParse L (initLex now' in') of
        None \<Rightarrow> None
      | Some Panics \<Rightarrow> Some Panics
      | Some (Returns (r, lx)) \<Rightarrow>
          if err lx \<noteq> None then Some (Returns (None, 0, 0, err lx))
          else Some (Returns (out lx, startTime lx, stopTime lx, None)))"

definition NewQuery ::
  "stdlib \<Rightarrow> Time \<Rightarrow> string \<Rightarrow> (query option \<times> Time \<times> Time \<times> error option) completion option" where
  "NewQuery L now' query' = parse L now' query'"

section \<open>Notions used to state the properties\<close>

text \<open>The time leaves of a tree, from left to right, each as its pair of bounds.\<close>

fun timeLeaves :: "query \<Rightarrow> (Time \<times> Time) list" where
  "timeLeaves (timeQuery a0 a1) = [(a0, a1)]"
| "timeLeaves (unionQuery a) = concat (map timeLeaves a)"
| "timeLeaves (intersectQuery a) = concat (map timeLeaves a)"
| "timeLeaves _ = []"

text \<open>The effect of one time leaf on a pair of bounds.\<close>

definition widen :: "Time \<times> Time \<Rightarrow> Time \<times> Time \<Rightarrow> Time \<times> Time" where
  "widen lf st = timeQuery_GetTimeSpan (fst lf) (snd lf) (fst st) (snd st)"

text \<open>
  The literal run at the cursor, as the specification words it: the longest run of
  hexadecimal digits and of the characters \<open>: . - T + Z\<close>, closed by an \<open>m\<close> or an \<open>h\<close>
  where one follows.
\<close>

fun literalRun :: "string \<Rightarrow> string" where
  "literalRun [] = []"
| "literalRun (c # cs) =
     (if isDurationChar c then [c]
      else if isHexChar c \<or> isIPChar c \<or> isTimeChar c then c # literalRun cs
      else [])"

text \<open>A run ended because an \<open>m\<close> or an \<open>h\<close> was consumed: that character is its last.\<close>

definition endsByDuration :: "string \<Rightarrow> bool" where
  "endsByDuration part = (part \<noteq> [] \<and> isDurationChar (last part))"

datatype literalClass = Timestamp | IPAddress | DurationLiteral | Integer | NoLiteral

text \<open>The priority of the classes as the claim states it, and as the code has it.\<close>

definition claimedClass :: "string \<Rightarrow> literalClass" where
  "claimedClass part =
     (if endsByDuration part then DurationLiteral
      else if list_ex isTimeChar part then Timestamp
      else if list_ex isIPChar part then IPAddress
      else if part \<noteq> [] then Integer
      else NoLiteral)"

definition codeClass :: "string \<Rightarrow> literalClass" where
  "codeClass part =
     (if list_ex isTimeChar part then Timestamp
      else if list_ex isIPChar part then IPAddress
      else if endsByDuration part then DurationLiteral
      else if part \<noteq> [] then Integer
      else NoLiteral)"

text \<open>
  What \<^verbatim>\<open>Lex\<close> returns for a literal run of each class, the cursor moved behind it;
  where there is no run, the end of the input, a punctuation character or an error.
\<close>

definition lexLiteral ::
  "stdlib \<Rightarrow> literalClass \<Rightarrow> string \<Rightarrow> parserLex \<Rightarrow> parserSymType \<Rightarrow>
   int \<times> parserLex \<times> parserSymType" where
  "lexLiteral L cls part x yylval =
     (case cls of
        Timestamp \<Rightarrow>
          (case time_Parse L part of
             None \<Rightarrow> (TIME, Error x (BadTime part), yylval\<lparr>time := 0\<rparr>)
           | Some t \<Rightarrow> (TIME, x, yylval\<lparr>time := t\<rparr>))
      | IPAddress \<Rightarrow>
          (case net_ParseIP L part of
             None \<Rightarrow> (- 1, Error x (BadIP part), yylval\<lparr>ip := []\<rparr>)
           | Some a \<Rightarrow> (IP, x, yylval\<lparr>ip := (case To4 a of Some ip4 \<Rightarrow> ip4 | None \<Rightarrow> a)\<rparr>))
      | DurationLiteral \<Rightarrow>
          (case time_ParseDuration L part of
             None \<Rightarrow> (DURATION, Error x (BadDuration part), yylval\<lparr>dur := 0\<rparr>)
           | Some d \<Rightarrow> (DURATION, x, yylval\<lparr>dur := d\<rparr>))
      | Integer \<Rightarrow>
          (case Atoi part of
             None \<Rightarrow> (- 1, x, yylval)
           | Some n \<Rightarrow> (NUM, x, yylval\<lparr>num := n\<rparr>))
      | NoLiteral \<Rightarrow>
          (if pos x \<ge> length (inp x) then (0, x, yylval)
           else if isPunct (inp x ! pos x)
           then (of_char (inp x ! pos x), x\<lparr>pos := Suc (pos x)\<rparr>, yylval)
           else (- 1, x, yylval)))"

text \<open>The cursor of the lexer after the white space, and the text from there on.\<close>

definition cursor :: "parserLex \<Rightarrow> nat" where
  "cursor x = skipSpace (drop (pos x) (inp x)) (pos x)"

definition unread :: "parserLex \<Rightarrow> string" where
  "unread x = drop (cursor x) (inp x)"

text \<open>
  The interval of a time leaf with its slack of one minute; a zero bound leaves its side
  open.
\<close>

definition inInterval :: "Time \<Rightarrow> Time \<Rightarrow> Time \<Rightarrow> bool" where
  "inInterval a0 a1 ft =
     ((IsZero a0 \<or> Add a0 (- Minute) \<le> ft) \<and> (IsZero a1 \<or> ft \<le> Add a1 Minute))"

text \<open>The variables that the loop of \<^verbatim>\<open>Parse\<close> can reach from given ones.\<close>

inductive reachable :: "stdlib \<Rightarrow> parserVars \<Rightarrow> parserVars \<Rightarrow> bool" for L v0 where
  reach_start: "reachable L v0 v0"
| reach_step: "reachable L v0 v \<Longrightarrow> step L v = Continue v' \<Longrightarrow> reachable L v0 v'"

text \<open>What a call of the lexer or an action leaves of the lexer as it was.\<close>

definition lexKeeps :: "parserLex \<Rightarrow> parserLex \<Rightarrow> bool" where
  "lexKeeps x x' =
     (inp x' = inp x \<and> now x' = now x \<and> pos x \<le> pos x' \<and>
      (pos x \<le> length (inp x) \<longrightarrow> pos x' \<le> length (inp x)) \<and>
      (\<forall>e. err x = Some e \<longrightarrow> err x' = Some e))"

text \<open>Every number held by the parser, on the stack or in a value, is at least 0.\<close>

definition numsNonneg :: "parserVars \<Rightarrow> bool" where
  "numsNonneg v =
     (0 \<le> num (lval v) \<and> 0 \<le> num (parserVAL v) \<and>
      list_all (\<lambda>e. 0 \<le> num e) (live v) \<and> list_all (\<lambda>e. 0 \<le> num e) (above v))"

text \<open>
  Values for evaluation: a standard library that knows a few literals, the position sets
  of an index of one record (a truth value: is the record in the set), and an index.
\<close>

definition demoLib :: stdlib where
  "demoLib =
     \<lparr>time_Parse = map_of
        [(''0001-01-01T00:00:00Z'', 0),
         (''2015-01-01T13:14:15Z'', 63555714855000000000),
         (''2018-01-01T12:00:00Z'', 63650404800000000000),
         (''2018-01-01T13:00:00Z'', 63650408400000000000)],
      net_ParseIP = map_of
        [(''1.2.3.4'', [0,0,0,0,0,0,0,0,0,0,255,255,1,2,3,4]),
         (''255.255.254.0'', [0,0,0,0,0,0,0,0,0,0,255,255,255,255,254,0]),
         (''::1'', [0,0,0,0,0,0,0,0,0,0,0,0,0,0,0,1])],
      time_ParseDuration = map_of
        [(''45m'', 45 * 60 * 1000000000), (''3h'', 3 * 3600 * 1000000000),
         (''2h'', 2 * 3600 * 1000000000)]\<rparr>"

definition demoBase :: "bool base" where
  "demoBase =
     \<lparr>AllPositions = True, NoPositions = False, nilPositions = False,
      Union = (\<or>), Intersect = (\<and>)\<rparr>"

definition demoIndex :: "string \<Rightarrow> (bool, unit) IndexFile" where
  "demoIndex name =
     \<lparr>Name = name,
      PortPositions = (\<lambda>p. Inr (p = 80)),
      VLANPositions = (\<lambda>v. Inr False),
      MPLSPositions = (\<lambda>m. Inr False),
      ProtoPositions = (\<lambda>p. Inr (p = 6)),
      IPPositions = (\<lambda>frm to. Inr True)\<rparr>"

section \<open>Mask arithmetic\<close>

lemma ipsFromNet_loop_inv:
  "length frm = length addr \<Longrightarrow> length to = length addr \<Longrightarrow> i \<le> length addr \<Longrightarrow>
   ipsFromNet_loop addr msk i frm to = (frm', to') \<Longrightarrow>
   length frm' = length addr \<and> length to' = length addr \<and>
   (\<forall>j < length addr. frm' ! j = (if j < i then frm ! j else (addr ! j) AND (msk ! j)) \<and>
                      to' ! j = (if j < i then to ! j else (addr ! j) OR NOT (msk ! j)))"
proof (induction addr msk i frm to rule: ipsFromNet_loop.induct)
  case (1 addr msk i frm to)
  show ?case
  proof (cases "i < length addr")
    case True
    let ?f = "frm[i := (addr ! i) AND (msk ! i)]"
    let ?t = "to[i := (addr ! i) OR NOT (msk ! i)]"
    from True "1.prems" have run: "ipsFromNet_loop addr msk (Suc i) ?f ?t = (frm', to')"
      by (subst (asm) ipsFromNet_loop.simps) simp
    have ih: "length frm' = length addr \<and> length to' = length addr \<and>
      (\<forall>j < length addr. frm' ! j = (if j < Suc i then ?f ! j else (addr ! j) AND (msk ! j)) \<and>
                      to' ! j = (if j < Suc i then ?t ! j else (addr ! j) OR NOT (msk ! j)))"
      using "1.IH" [OF True _ _ _ run] True "1.prems" by simp
    show ?thesis
    proof (intro conjI allI impI)
      show "length frm' = length addr" using ih by simp
      show "length to' = length addr" using ih by simp
    next
      fix j assume j: "j < length addr"
      show "frm' ! j = (if j < i then frm ! j else (addr ! j) AND (msk ! j))"
        using ih j "1.prems" by (cases "j = i") (auto simp: nth_list_update less_Suc_eq)
      show "to' ! j = (if j < i then to ! j else (addr ! j) OR NOT (msk ! j))"
        using ih j "1.prems" by (cases "j = i") (auto simp: nth_list_update less_Suc_eq)
    qed
  next
    case False
    with "1.prems" have "frm' = frm \<and> to' = to \<and> i = length addr"
      by (subst (asm) ipsFromNet_loop.simps) simp
    then show ?thesis using "1.prems" by simp
  qed
qed

lemma and_le_or_not: "(a :: byte) AND m \<le> a OR NOT m"
  by (meson le_word_or2 order.trans word_and_le2)

text \<open>
  C5. For an address and a mask of the same length, 4 or 16 bytes, \<open>ipsFromNet\<close> returns
  the range with \<open>from[i] = ip[i] & mask[i]\<close> and \<open>to[i] = ip[i] | ~mask[i]\<close> at every
  byte, so that \<open>from[i] \<le> to[i]\<close>; for operands of different lengths, or of a length
  other than 4 and 16, it returns an error and no range.
\<close>

theorem ipsFromNet_mask_arithmetic:
  "(length addr = length msk \<and> (length addr = 4 \<or> length addr = 16) \<longrightarrow>
      (\<exists>frm to. ipsFromNet addr msk = Inr (frm, to) \<and>
         length frm = length addr \<and> length to = length addr \<and>
         (\<forall>i < length addr. frm ! i = (addr ! i) AND (msk ! i) \<and>
                            to ! i = (addr ! i) OR NOT (msk ! i) \<and>
                            frm ! i \<le> to ! i))) \<and>
   (\<not> (length addr = length msk \<and> (length addr = 4 \<or> length addr = 16)) \<longrightarrow>
      ipsFromNet addr msk = Inl (BadIPOrMask addr msk))"
proof (intro conjI impI)
  assume ok: "length addr = length msk \<and> (length addr = 4 \<or> length addr = 16)"
  obtain frm to where run:
    "ipsFromNet_loop addr msk 0 (replicate (length addr) 0) (replicate (length addr) 0) = (frm, to)"
    by (cases "ipsFromNet_loop addr msk 0 (replicate (length addr) 0) (replicate (length addr) 0)")
  have inv: "length frm = length addr \<and> length to = length addr \<and>
    (\<forall>j < length addr. frm ! j = (addr ! j) AND (msk ! j) \<and> to ! j = (addr ! j) OR NOT (msk ! j))"
    using ipsFromNet_loop_inv [OF _ _ _ run] by simp
  have "ipsFromNet addr msk = Inr (frm, to)"
    using ok run by (auto simp: ipsFromNet_def)
  with inv show "\<exists>frm to. ipsFromNet addr msk = Inr (frm, to) \<and>
         length frm = length addr \<and> length to = length addr \<and>
         (\<forall>i < length addr. frm ! i = (addr ! i) AND (msk ! i) \<and>
                            to ! i = (addr ! i) OR NOT (msk ! i) \<and>
                            frm ! i \<le> to ! i)"
    by (auto simp: and_le_or_not)
next
  assume "\<not> (length addr = length msk \<and> (length addr = 4 \<or> length addr = 16))"
  then show "ipsFromNet addr msk = Inl (BadIPOrMask addr msk)"
    by (auto simp: ipsFromNet_def)
qed

theorem ipsFromNet_mask_arithmetic_witness:
  "(\<exists>frm to. ipsFromNet [10, 1, 2, 3] [255, 255, 0, 0] = Inr (frm, to) \<and>
      frm ! 2 = 2 AND 0 \<and> to ! 2 = 2 OR NOT 0 \<and> frm ! 2 \<le> to ! 2) \<and>
   ipsFromNet [10, 1, 2] [255, 255, 0] = Inl (BadIPOrMask [10, 1, 2] [255, 255, 0])"
proof -
  have h1: "length [10, 1, 2, 3 :: byte] = length [255, 255, 0, 0 :: byte] \<and>
      (length [10, 1, 2, 3 :: byte] = 4 \<or> length [10, 1, 2, 3 :: byte] = 16)"
    by simp
  have h2: "\<not> (length [10, 1, 2 :: byte] = length [255, 255, 0 :: byte] \<and>
      (length [10, 1, 2 :: byte] = 4 \<or> length [10, 1, 2 :: byte] = 16))"
    by simp
  from ipsFromNet_mask_arithmetic [of "[10, 1, 2, 3]" "[255, 255, 0, 0]"] h1
  obtain frm to where r: "ipsFromNet [10, 1, 2, 3] [255, 255, 0, 0] = Inr (frm, to)"
    and b: "\<forall>i < length [10, 1, 2, 3 :: byte]. frm ! i = ([10, 1, 2, 3] ! i) AND ([255, 255, 0, 0] ! i) \<and>
                            to ! i = ([10, 1, 2, 3] ! i) OR NOT ([255, 255, 0, 0] ! i) \<and>
                            frm ! i \<le> to ! i"
    by blast
  from b have "frm ! 2 = 2 AND 0 \<and> to ! 2 = 2 OR NOT 0 \<and> frm ! 2 \<le> to ! 2"
    by (simp add: All_less_Suc numeral_eq_Suc)
  moreover from ipsFromNet_mask_arithmetic [of "[10, 1, 2]" "[255, 255, 0]"] h2
  have "ipsFromNet [10, 1, 2] [255, 255, 0] = Inl (BadIPOrMask [10, 1, 2] [255, 255, 0])"
    by blast
  ultimately show ?thesis using r by blast
qed

section \<open>Time spans\<close>

lemma fold_concat_map:
  "fold f (concat (map g xs)) s = fold (\<lambda>x. fold f (g x)) xs s"
  by (induction xs arbitrary: s) auto

lemma GetTimeSpan_fold_leaves:
  "GetTimeSpan q s t = fold widen (timeLeaves q) (s, t)"
proof (induction q arbitrary: s t)
  case (unionQuery a)
  have "fold (\<lambda>q st. GetTimeSpan q (fst st) (snd st)) a st =
        fold (\<lambda>q. fold widen (timeLeaves q)) a st" for st
    using unionQuery by (intro fold_cong) (auto simp: fun_eq_iff)
  then show ?case by (simp add: fold_concat_map)
next
  case (intersectQuery a)
  have "fold (\<lambda>q st. GetTimeSpan q (fst st) (snd st)) a st =
        fold (\<lambda>q. fold widen (timeLeaves q)) a st" for st
    using intersectQuery by (intro fold_cong) (auto simp: fun_eq_iff)
  then show ?case by (simp add: fold_concat_map)
qed (simp_all add: widen_def)

lemma fold_widen_after_before:
  assumes "\<not> IsZero A" "\<not> IsZero B"
    and "set ls \<subseteq> {(A, 0), (0, B)}"
    and "s = 0 \<or> s = Add A (- Minute)" and "t = 0 \<or> t = Add B Minute"
  shows "fold widen ls (s, t) =
         (if (A, 0) \<in> set ls then Add A (- Minute) else s,
          if (0, B) \<in> set ls then Add B Minute else t)"
  using assms
proof (induction ls arbitrary: s t)
  case Nil
  then show ?case by simp
next
  case (Cons l ls)
  from Cons.prems have "l = (A, 0) \<or> l = (0, B)" by auto
  then show ?case
  proof
    assume l: "l = (A, 0)"
    have w: "widen l (s, t) = (Add A (- Minute), t)"
      using Cons.prems l
      by (auto simp: widen_def timeQuery_GetTimeSpan_def IsZero_def After_def Before_def Add_def Let_def)
    show ?thesis
      using Cons.IH [of "Add A (- Minute)" t] Cons.prems l w by (auto simp: IsZero_def)
  next
    assume l: "l = (0, B)"
    have w: "widen l (s, t) = (s, Add B Minute)"
      using Cons.prems l
      by (auto simp: widen_def timeQuery_GetTimeSpan_def IsZero_def After_def Before_def Add_def Let_def)
    show ?thesis
      using Cons.IH [of s "Add B Minute"] Cons.prems l w by (auto simp: IsZero_def)
  qed
qed

text \<open>
  C4, as the code has it. A time leaf \<open>after A\<close> is \<open>timeQuery A 0\<close> and a time leaf
  \<open>before B\<close> is \<open>timeQuery 0 B\<close>: the zero instant stands for an absent bound. For
  every tree whose time leaves are \<open>after A\<close> and \<open>before B\<close>, in any number and at any
  place, with \<open>A\<close> and \<open>B\<close> both other than the zero instant, \<open>GetTimeSpan\<close> from unset
  bounds returns exactly \<open>(A - 1 minute, B + 1 minute)\<close> (the order of \<open>A\<close> and \<open>B\<close>
  plays no role); and for every tree without time leaves it returns the bounds it was
  given.
\<close>

theorem GetTimeSpan_after_before:
  "(\<not> IsZero A \<and> \<not> IsZero B \<and> set (timeLeaves q) = {(A, 0), (0, B)} \<longrightarrow>
      GetTimeSpan q 0 0 = (Add A (- Minute), Add B Minute)) \<and>
   (timeLeaves q' = [] \<longrightarrow> GetTimeSpan q' s t = (s, t))"
proof (intro conjI impI)
  assume h: "\<not> IsZero A \<and> \<not> IsZero B \<and> set (timeLeaves q) = {(A, 0), (0, B)}"
  then have "fold widen (timeLeaves q) (0, 0) =
         (if (A, 0) \<in> set (timeLeaves q) then Add A (- Minute) else 0,
          if (0, B) \<in> set (timeLeaves q) then Add B Minute else 0)"
    by (intro fold_widen_after_before) auto
  with h show "GetTimeSpan q 0 0 = (Add A (- Minute), Add B Minute)"
    by (simp add: GetTimeSpan_fold_leaves)
next
  assume "timeLeaves q' = []"
  then show "GetTimeSpan q' s t = (s, t)"
    by (simp add: GetTimeSpan_fold_leaves)
qed

theorem GetTimeSpan_after_before_witness:
  "GetTimeSpan (intersectQuery [unionQuery [portQuery 80, timeQuery 7200000000000 0],
                                 timeQuery 0 9000000000000]) 0 0
     = (7140000000000, 9060000000000) \<and>
   GetTimeSpan (unionQuery [portQuery 80, protocolQuery 6]) 5 9 = (5, 9)"
proof -
  let ?q = "intersectQuery [unionQuery [portQuery 80, timeQuery 7200000000000 0],
                            timeQuery 0 9000000000000]"
  let ?q' = "unionQuery [portQuery 80, protocolQuery 6]"
  have h1: "\<not> IsZero 7200000000000 \<and> \<not> IsZero 9000000000000 \<and>
            set (timeLeaves ?q) = {(7200000000000, 0), (0, 9000000000000)}"
    by (simp add: IsZero_def)
  have h2: "timeLeaves ?q' = []" by simp
  from GetTimeSpan_after_before [of 7200000000000 9000000000000 ?q ?q' 5 9] h1 h2
  have "GetTimeSpan ?q 0 0 = (Add 7200000000000 (- Minute), Add 9000000000000 Minute) \<and>
        GetTimeSpan ?q' 5 9 = (5, 9)"
    by blast
  then show ?thesis by (simp add: Add_def Minute_def)
qed

text \<open>
  Without the condition on \<open>A\<close> the statement of C4 fails: the zero instant is a
  timestamp that the lexer accepts, \<open>after 0001-01-01T00:00:00Z\<close> gives the leaf
  \<open>timeQuery 0 0\<close>, which \<open>GetTimeSpan\<close> takes for a leaf without bounds, so the start
  stays unset where the claim has \<open>A - 1 minute\<close>.
\<close>

theorem GetTimeSpan_after_before_counterexample:
  "time_Parse demoLib ''0001-01-01T00:00:00Z'' = Some 0 \<and>
   time_Parse demoLib ''2018-01-01T12:00:00Z'' = Some 63650404800000000000 \<and>
   parse demoLib 0 ''after 0001-01-01T00:00:00Z and before 2018-01-01T12:00:00Z'' =
     Some (Returns (Some (intersectQuery [timeQuery 0 0, timeQuery 0 63650404800000000000]),
                    0, 63650404800000000000, None)) \<and>
   (0 :: Time) \<le> 63650404800000000000 \<and>
   GetTimeSpan (intersectQuery [timeQuery 0 0, timeQuery 0 63650404800000000000]) 0 0 =
     (0, 63650404860000000000) \<and>
   GetTimeSpan (intersectQuery [timeQuery 0 0, timeQuery 0 63650404800000000000]) 0 0 \<noteq>
     (Add 0 (- Minute), Add 63650404800000000000 Minute)"
proof -
  have p: "parse demoLib 0 ''after 0001-01-01T00:00:00Z and before 2018-01-01T12:00:00Z'' =
     Some (Returns (Some (intersectQuery [timeQuery 0 0, timeQuery 0 63650404800000000000]),
                    0, 63650404800000000000, None))"
    by code_simp
  have g: "GetTimeSpan (intersectQuery [timeQuery 0 0, timeQuery 0 63650404800000000000]) 0 0 =
     (0, 63650404860000000000)"
    by (simp add: timeQuery_GetTimeSpan_def IsZero_def Add_def Minute_def After_def Before_def)
  have l: "time_Parse demoLib ''0001-01-01T00:00:00Z'' = Some 0 \<and>
           time_Parse demoLib ''2018-01-01T12:00:00Z'' = Some 63650404800000000000"
    by (simp add: demoLib_def)
  have n: "(0, 63650404860000000000) \<noteq> (Add 0 (- Minute), Add 63650404800000000000 Minute)"
    by (simp add: Add_def Minute_def)
  from p g l n show ?thesis by simp
qed

section \<open>The lexer\<close>

lemma HasPrefix_Nil [simp]: "HasPrefix s []"
  by (simp add: HasPrefix_def)

lemma HasPrefix_Nil_Cons [simp]: "\<not> HasPrefix [] (d # t)"
  by (simp add: HasPrefix_def)

lemma HasPrefix_Cons [simp]: "HasPrefix (c # s) (d # t) = (c = d \<and> HasPrefix s t)"
  by (auto simp: HasPrefix_def)

lemma HasPrefix_iff_append: "HasPrefix s t = (\<exists>r. s = t @ r)"
proof (induction t arbitrary: s)
  case Nil
  show ?case by simp
next
  case (Cons d t)
  show ?case by (cases s) (auto simp: Cons.IH)
qed

lemma HasPrefix_prefix: "HasPrefix s t = prefix t s"
  by (auto simp: HasPrefix_iff_append prefix_def)

text \<open>No keyword is a prefix of another: at most one keyword matches a text.\<close>

lemma tokens_distinct: "distinct (map fst tokens)"
  by (simp add: tokens_def)

lemma tokens_prefix_free:
  "(t, i) \<in> set tokens \<Longrightarrow> (t', i') \<in> set tokens \<Longrightarrow> HasPrefix t t' \<Longrightarrow> t' = t"
  unfolding tokens_def by (simp, elim disjE conjE; simp)

lemma tokens_one_match:
  assumes "(t, i) \<in> set tokens" "(t', i') \<in> set tokens" "HasPrefix s t" "HasPrefix s t'"
  shows "t' = t \<and> i' = i"
proof -
  from assms(3,4) have "prefix t s" "prefix t' s"
    by (simp_all add: HasPrefix_prefix)
  then have "prefix t t' \<or> prefix t' t"
    by (rule prefix_same_cases)
  then have "HasPrefix t' t \<or> HasPrefix t t'" by (simp add: HasPrefix_prefix)
  then have tt: "t' = t"
    using tokens_prefix_free [OF assms(1,2)] tokens_prefix_free [OF assms(2,1)] by auto
  moreover have "i' = i"
    using assms(1,2) tt tokens_distinct by (meson eq_key_imp_eq_value)
  ultimately show ?thesis by simp
qed

lemma findToken_Some:
  "findToken ts s = Some (t, i) \<Longrightarrow> (t, i) \<in> set ts \<and> HasPrefix s t"
  by (induction ts) (auto split: if_splits)

lemma findToken_None: "findToken ts s = None \<Longrightarrow> (t, i) \<in> set ts \<Longrightarrow> \<not> HasPrefix s t"
  by (induction ts) (auto split: if_splits)

lemma findToken_match:
  assumes "(t, i) \<in> set tokens" "HasPrefix s t"
  shows "findToken tokens s = Some (t, i)"
proof (cases "findToken tokens s")
  case None
  with assms show ?thesis by (auto dest: findToken_None)
next
  case (Some m)
  obtain t' i' where m: "m = (t', i')" by (cases m)
  with Some have "(t', i') \<in> set tokens \<and> HasPrefix s t'"
    by (auto dest: findToken_Some)
  with assms have "t' = t \<and> i' = i" by (auto dest: tokens_one_match)
  with Some m show ?thesis by simp
qed

text \<open>
  The order of the keyword map plays no role: a list of the same keywords in any order
  finds the same keyword.
\<close>

lemma findToken_order_irrelevant:
  assumes "set ts = set tokens"
  shows "findToken ts s = findToken tokens s"
proof (cases "findToken ts s")
  case None
  have "findToken tokens s = None"
  proof (cases "findToken tokens s")
    case (Some m)
    obtain t i where "m = (t, i)" by (cases m)
    with Some have "(t, i) \<in> set tokens \<and> HasPrefix s t" by (auto dest: findToken_Some)
    with None assms show ?thesis by (auto dest: findToken_None)
  qed simp
  with None show ?thesis by simp
next
  case (Some m)
  obtain t i where m: "m = (t, i)" by (cases m)
  with Some have "(t, i) \<in> set ts \<and> HasPrefix s t" by (auto dest: findToken_Some)
  with assms have "findToken tokens s = Some (t, i)" by (auto intro: findToken_match)
  with Some m show ?thesis by simp
qed

lemma tokens_not_space:
  "(t, i) \<in> set tokens \<Longrightarrow> t \<noteq> [] \<and> \<not> IsSpace (hd t)"
  unfolding tokens_def by (simp, elim disjE conjE; simp add: IsSpace_def)

lemma skipSpace_keyword:
  assumes "(t, i) \<in> set tokens" "HasPrefix s t"
  shows "skipSpace s p = p"
proof -
  from assms(2) obtain r where "s = t @ r" by (auto simp: HasPrefix_iff_append)
  moreover from tokens_not_space [OF assms(1)] obtain c cs where "t = c # cs" "\<not> IsSpace c"
    by (cases t) auto
  ultimately show ?thesis by simp
qed

lemma Lex_keyword:
  assumes "(t, i) \<in> set tokens" "HasPrefix (drop (pos x) (inp x)) t"
  shows "Lex L x yylval = (i, x\<lparr>pos := pos x + length t\<rparr>, yylval)"
  using skipSpace_keyword [OF assms] findToken_match [OF assms]
  by (simp add: Lex_def)

lemma char_classes_disjoint:
  "isDurationChar c \<Longrightarrow> \<not> isIPChar c \<and> \<not> isHexChar c \<and> \<not> isTimeChar c"
  "isIPChar c \<Longrightarrow> \<not> isHexChar c \<and> \<not> isTimeChar c"
  "isHexChar c \<Longrightarrow> \<not> isTimeChar c"
  by (auto simp: isDurationChar_def isIPChar_def isHexChar_def isTimeChar_def)

lemma endsByDuration_Cons:
  "\<not> isDurationChar c \<Longrightarrow> endsByDuration (c # r) = endsByDuration r"
  by (cases r) (auto simp: endsByDuration_def)

lemma scanLiteral_run:
  "scanLiteral s p isIP isDuration isTime =
     (p + length (literalRun s),
      isIP \<or> list_ex isIPChar (literalRun s),
      isDuration \<or> endsByDuration (literalRun s),
      isTime \<or> list_ex isTimeChar (literalRun s))"
proof (induction s arbitrary: p isIP isDuration isTime)
  case Nil
  show ?case by (simp add: endsByDuration_def)
next
  case (Cons c s)
  consider (ip) "isIPChar c" | (hex) "\<not> isIPChar c" "isHexChar c"
    | (dur) "\<not> isIPChar c" "\<not> isHexChar c" "isDurationChar c"
    | (tm) "\<not> isIPChar c" "\<not> isHexChar c" "\<not> isDurationChar c" "isTimeChar c"
    | (other) "\<not> isIPChar c" "\<not> isHexChar c" "\<not> isDurationChar c" "\<not> isTimeChar c"
    by blast
  then show ?case
  proof cases
    case ip
    then have "\<not> isDurationChar c \<and> \<not> isTimeChar c \<and> \<not> isHexChar c"
      using char_classes_disjoint by blast
    with ip show ?thesis by (simp add: Cons.IH endsByDuration_Cons)
  next
    case hex
    then have "\<not> isDurationChar c \<and> \<not> isTimeChar c"
      using char_classes_disjoint by blast
    with hex show ?thesis by (simp add: Cons.IH endsByDuration_Cons)
  next
    case dur
    then show ?thesis using char_classes_disjoint(1) [of c] by (simp add: endsByDuration_def)
  next
    case tm
    then show ?thesis by (simp add: Cons.IH endsByDuration_Cons)
  next
    case other
    then show ?thesis by (simp add: endsByDuration_def)
  qed
qed

lemma literalRun_prefix: "take (length (literalRun s)) s = literalRun s"
  by (induction s) auto

lemma literalRun_length: "length (literalRun s) \<le> length s"
  by (induction s) auto

lemma skipSpace_ge: "p \<le> skipSpace s p"
  by (induction s arbitrary: p) (auto intro: Suc_leD)

lemma skipSpace_bound: "skipSpace s p \<le> p + length s"
proof (induction s arbitrary: p)
  case Nil
  show ?case by simp
next
  case (Cons c s)
  show ?case using Cons.IH [of "Suc p"] by simp
qed

lemma skipSpace_le_length: "p \<le> length s \<Longrightarrow> skipSpace (drop p s) p \<le> length s"
  using skipSpace_bound [of "drop p s" p] by simp

lemma cursor_ge: "pos x \<le> cursor x"
  by (simp add: cursor_def skipSpace_ge)

text \<open>The two ways through \<^verbatim>\<open>Lex\<close>: a keyword at the cursor, or the literal run there.\<close>

lemma Lex_keyword_at_cursor:
  assumes "findToken tokens (unread x) = Some (t, i)"
  shows "Lex L x yylval = (i, x\<lparr>pos := cursor x + length t\<rparr>, yylval)"
  using assms by (simp add: Lex_def unread_def cursor_def)

lemma Lex_alt:
  "Lex L x yylval =
     (case findToken tokens (unread x) of
        Some (t, i) \<Rightarrow> (i, x\<lparr>pos := cursor x + length t\<rparr>, yylval)
      | None \<Rightarrow>
          (case scanLiteral (unread x) (cursor x) False False False of
             (p, isIP, isDuration, isTime) \<Rightarrow>
               (let part = take (p - cursor x) (unread x) in
                if isTime then lexLiteral L Timestamp part (x\<lparr>pos := p\<rparr>) yylval
                else if isIP then lexLiteral L IPAddress part (x\<lparr>pos := p\<rparr>) yylval
                else if isDuration then lexLiteral L DurationLiteral part (x\<lparr>pos := p\<rparr>) yylval
                else if p \<noteq> cursor x then lexLiteral L Integer part (x\<lparr>pos := p\<rparr>) yylval
                else lexLiteral L NoLiteral part (x\<lparr>pos := p\<rparr>) yylval)))"
proof (cases "findToken tokens (unread x)")
  case None
  obtain p a b c where sc: "scanLiteral (unread x) (cursor x) False False False = (p, a, b, c)"
    by (cases "scanLiteral (unread x) (cursor x) False False False")
  have None': "findToken tokens (drop (skipSpace (drop (pos x) (inp x)) (pos x)) (inp x)) = None"
    using None by (simp add: unread_def cursor_def)
  have sc': "scanLiteral (drop (skipSpace (drop (pos x) (inp x)) (pos x)) (inp x))
               (skipSpace (drop (pos x) (inp x)) (pos x)) False False False = (p, a, b, c)"
    using sc by (simp add: unread_def cursor_def)
  show ?thesis
    unfolding Lex_def Let_def None' sc' unread_def cursor_def lexLiteral_def
    by simp
next
  case (Some m)
  obtain t i where m: "m = (t, i)" by (cases m)
  have Some': "findToken tokens (drop (skipSpace (drop (pos x) (inp x)) (pos x)) (inp x)) = Some (t, i)"
    using Some m by (simp add: unread_def cursor_def)
  show ?thesis
    unfolding Lex_def Let_def Some' unread_def cursor_def
    by simp
qed

lemma Lex_literal:
  assumes "findToken tokens (unread x) = None"
  shows "Lex L x yylval =
         lexLiteral L (codeClass (literalRun (unread x))) (literalRun (unread x))
           (x\<lparr>pos := cursor x + length (literalRun (unread x))\<rparr>) yylval"
  by (simp add: Lex_alt assms scanLiteral_run literalRun_prefix codeClass_def Let_def)

subsection \<open>What every call of \<^verbatim>\<open>Lex\<close> keeps\<close>

lemma Error_fields [simp]:
  "inp (Error x s) = inp x" "pos (Error x s) = pos x" "now (Error x s) = now x"
  "out (Error x s) = out x" "startTime (Error x s) = startTime x"
  "stopTime (Error x s) = stopTime x"
  by (simp_all add: Error_def)

lemma Error_first_wins: "err x = Some e \<Longrightarrow> Error x s = x"
  by (simp add: Error_def)

lemma Error_keeps: "err x = Some e \<Longrightarrow> err (Error x s) = Some e"
  by (simp add: Error_def)

lemma Error_records: "err (Error x s) \<noteq> None"
  by (simp add: Error_def)

lemma findToken_length:
  "findToken tokens s = Some (t, i) \<Longrightarrow> t \<noteq> [] \<and> length t \<le> length s"
proof -
  assume f: "findToken tokens s = Some (t, i)"
  then have m: "(t, i) \<in> set tokens" "HasPrefix s t" by (auto dest: findToken_Some)
  from m(2) have "length t \<le> length s" by (simp add: HasPrefix_def)
  with tokens_not_space [OF m(1)] show ?thesis by simp
qed

lemma cursor_le_length: "pos x \<le> length (inp x) \<Longrightarrow> cursor x \<le> length (inp x)"
  by (simp add: cursor_def skipSpace_le_length)

lemma length_unread: "length (unread x) = length (inp x) - cursor x"
  by (simp add: unread_def)

lemma codeClass_nonempty:
  "codeClass part \<noteq> NoLiteral \<Longrightarrow> part \<noteq> []"
  by (auto simp: codeClass_def endsByDuration_def split: if_splits)

lemma codeClass_NoLiteral: "codeClass part = NoLiteral \<Longrightarrow> part = []"
  by (auto simp: codeClass_def split: if_splits)

lemma of_char_lt_256: "(of_char c :: int) < 256"
proof -
  have "(of_char c :: int) mod 256 = of_char c" by simp
  moreover have "(of_char c :: int) mod 256 < 256" by (rule pos_mod_bound) simp
  ultimately show ?thesis by simp
qed

lemma lexLiteral_props:
  assumes "lexLiteral L cls part x yylval = (c, x', yylval')"
  shows "inp x' = inp x \<and> now x' = now x \<and> out x' = out x \<and>
         startTime x' = startTime x \<and> stopTime x' = stopTime x \<and>
         pos x \<le> pos x' \<and> (cls \<noteq> NoLiteral \<longrightarrow> pos x' = pos x) \<and>
         (pos x \<le> length (inp x) \<longrightarrow> pos x' \<le> length (inp x)) \<and>
         (cls = NoLiteral \<and> 0 < c \<longrightarrow> pos x < pos x') \<and>
         (err x = Some e \<longrightarrow> err x' = Some e)"
  using assms
  by (cases cls) (auto simp: lexLiteral_def Error_keeps split: option.splits if_splits)

lemma Lex_props:
  assumes "Lex L x yylval = (c, x', yylval')"
  shows "inp x' = inp x \<and> now x' = now x \<and> out x' = out x \<and>
         startTime x' = startTime x \<and> stopTime x' = stopTime x \<and>
         pos x \<le> pos x' \<and> (0 < c \<longrightarrow> pos x < pos x') \<and>
         (pos x \<le> length (inp x) \<longrightarrow> pos x' \<le> length (inp x)) \<and>
         (err x = Some e \<longrightarrow> err x' = Some e)"
proof (cases "findToken tokens (unread x)")
  case (Some m)
  obtain t i where m: "m = (t, i)" by (cases m)
  from Some m have len: "t \<noteq> [] \<and> length t \<le> length (unread x)"
    by (auto dest: findToken_length)
  from Some m assms have r: "c = i" "x' = x\<lparr>pos := cursor x + length t\<rparr>"
    by (simp_all add: Lex_keyword_at_cursor)
  have "pos x < cursor x + length t" using cursor_ge [of x] len by (cases t) auto
  moreover have "pos x \<le> length (inp x) \<longrightarrow> cursor x + length t \<le> length (inp x)"
    using len cursor_le_length [of x] by (auto simp: length_unread)
  ultimately show ?thesis using r by simp
next
  case None
  let ?part = "literalRun (unread x)"
  let ?x = "x\<lparr>pos := cursor x + length ?part\<rparr>"
  from None assms have l: "lexLiteral L (codeClass ?part) ?part ?x yylval = (c, x', yylval')"
    by (simp add: Lex_literal)
  note p = lexLiteral_props [OF l, of e]
  have bound: "pos x \<le> length (inp x) \<Longrightarrow> cursor x + length ?part \<le> length (inp x)"
    using literalRun_length [of "unread x"] cursor_le_length [of x]
    by (auto simp: length_unread)
  have adv: "0 < c \<Longrightarrow> pos x < pos x'"
  proof (cases "codeClass ?part = NoLiteral")
    case True
    assume "0 < c"
    with p True have "pos ?x < pos x'" by blast
    with cursor_ge [of x] show ?thesis by simp
  next
    case False
    then have "?part \<noteq> []" by (rule codeClass_nonempty)
    then have "0 < length ?part" by simp
    with p cursor_ge [of x] show ?thesis by (simp del: length_greater_0_conv)
  qed
  have "pos x \<le> pos x'" using p cursor_ge [of x] by simp
  moreover have "pos x \<le> length (inp x) \<longrightarrow> pos x' \<le> length (inp x)"
    using p bound by simp
  ultimately show ?thesis using p adv by simp
qed

subsection \<open>Integer tokens\<close>

lemma digitVal_nonneg: "isDigit c \<Longrightarrow> 0 \<le> digitVal c"
  by (auto simp: isDigit_def digitVal_def)

lemma decimal_fold_nonneg:
  "0 \<le> n \<Longrightarrow> list_all isDigit ds \<Longrightarrow> 0 \<le> foldl (\<lambda>n c. n * 10 + digitVal c) n ds"
proof (induction ds arbitrary: n)
  case Nil
  then show ?case by simp
next
  case (Cons d ds)
  then have "0 \<le> n * 10 + digitVal d" using digitVal_nonneg [of d] by simp
  with Cons show ?case by simp
qed

lemma ParseInt_nonneg:
  assumes "ParseInt s = Some n" "hd s \<noteq> CHR ''-''"
  shows "0 \<le> n"
proof (cases s)
  case Nil
  with assms show ?thesis by (simp add: ParseInt_def)
next
  case (Cons c cs)
  let ?ds = "if c = CHR ''+'' \<or> c = CHR ''-'' then cs else s"
  from assms Cons have c: "c \<noteq> CHR ''-''" by simp
  from assms(1) Cons c have d: "list_all isDigit ?ds \<and> n = decimal ?ds"
    by (auto simp: ParseInt_def Let_def split: if_splits)
  then have "0 \<le> decimal ?ds"
    unfolding decimal_def by (intro decimal_fold_nonneg) auto
  with d show ?thesis by simp
qed

lemma tokens_not_NUM: "(t, i) \<in> set tokens \<Longrightarrow> i \<noteq> NUM"
  unfolding tokens_def by (auto simp: token_defs)

lemma Lex_NUM_nonneg:
  assumes "Lex L x yylval = (NUM, x', yylval')"
  shows "0 \<le> num yylval'"
proof (cases "findToken tokens (unread x)")
  case (Some m)
  obtain t i where m: "m = (t, i)" by (cases m)
  with Some assms have "i = NUM" by (simp add: Lex_keyword_at_cursor)
  moreover from Some m have "(t, i) \<in> set tokens" by (auto dest: findToken_Some)
  ultimately show ?thesis using tokens_not_NUM by blast
next
  case None
  let ?part = "literalRun (unread x)"
  let ?x = "x\<lparr>pos := cursor x + length ?part\<rparr>"
  from None assms have l: "lexLiteral L (codeClass ?part) ?part ?x yylval = (NUM, x', yylval')"
    by (simp add: Lex_literal)
  have nopunct: "(of_char ch :: int) \<noteq> NUM" for ch
    using of_char_lt_256 [of ch] by (simp add: NUM_def)
  from l nopunct have cls: "codeClass ?part = Integer"
    by (cases "codeClass ?part")
       (auto simp: lexLiteral_def token_defs split: option.splits if_splits)
  then have notime: "\<not> list_ex isTimeChar ?part" and ne: "?part \<noteq> []"
    by (auto simp: codeClass_def split: if_splits)
  then have "hd ?part \<noteq> CHR ''-''"
    by (cases ?part) (auto simp: isTimeChar_def)
  moreover from l cls obtain n where "Atoi ?part = Some n" "num yylval' = n"
    by (auto simp: lexLiteral_def NUM_def split: option.splits)
  ultimately show ?thesis using ParseInt_nonneg [of ?part] by (simp add: Atoi_def)
qed

section \<open>Properties of the lexer\<close>

lemmas char_class_defs =
  IsSpace_def isIPChar_def isHexChar_def isDurationChar_def isTimeChar_def isPunct_def

text \<open>
  C9. The keyword matcher tests prefixes of the unread text and asks for no word boundary
  behind a keyword: wherever the unread text begins with a keyword, \<^verbatim>\<open>Lex\<close> returns the
  token of that keyword and moves the cursor by exactly its length. So \<open>hostname\<close> is
  lexed as the keyword \<open>host\<close>, cursor at 4, and the rest \<open>name\<close> is no token: the next
  call returns the error code and leaves the cursor where it is.
\<close>

theorem Lex_keyword_without_word_boundary:
  "((t, i) \<in> set tokens \<and> HasPrefix (drop (pos x) (inp x)) t \<longrightarrow>
      Lex L x yylval = (i, x\<lparr>pos := pos x + length t\<rparr>, yylval)) \<and>
   Lex L (initLex n ''hostname'') yylval = (HOST, (initLex n ''hostname'')\<lparr>pos := 4\<rparr>, yylval) \<and>
   Lex L ((initLex n ''hostname'')\<lparr>pos := 4\<rparr>) yylval =
     (- 1, (initLex n ''hostname'')\<lparr>pos := 4\<rparr>, yylval)"
proof (intro conjI impI)
  assume "(t, i) \<in> set tokens \<and> HasPrefix (drop (pos x) (inp x)) t"
  then show "Lex L x yylval = (i, x\<lparr>pos := pos x + length t\<rparr>, yylval)"
    by (simp add: Lex_keyword)
next
  have "(''host'', HOST) \<in> set tokens" by (simp add: tokens_def)
  moreover have "HasPrefix (drop (pos (initLex n ''hostname'')) (inp (initLex n ''hostname''))) ''host''"
    by (simp add: initLex_def)
  ultimately have "Lex L (initLex n ''hostname'') yylval =
      (HOST, (initLex n ''hostname'')\<lparr>pos := pos (initLex n ''hostname'') + length ''host''\<rparr>, yylval)"
    by (rule Lex_keyword)
  then show "Lex L (initLex n ''hostname'') yylval =
      (HOST, (initLex n ''hostname'')\<lparr>pos := 4\<rparr>, yylval)"
    by (simp add: initLex_def)
next
  show "Lex L ((initLex n ''hostname'')\<lparr>pos := 4\<rparr>) yylval =
     (- 1, (initLex n ''hostname'')\<lparr>pos := 4\<rparr>, yylval)"
    by (simp add: Lex_def initLex_def tokens_def char_class_defs)
qed

theorem Lex_keyword_without_word_boundary_witness:
  "Lex demoLib (initLex 0 ''portal 80'') zeroSym =
     (PORT, (initLex 0 ''portal 80'')\<lparr>pos := 4\<rparr>, zeroSym)"
proof -
  have h: "(''port'', PORT) \<in> set tokens \<and>
           HasPrefix (drop (pos (initLex 0 ''portal 80'')) (inp (initLex 0 ''portal 80''))) ''port''"
    by (simp add: tokens_def initLex_def)
  from Lex_keyword_without_word_boundary
         [of "''port''" PORT "initLex 0 ''portal 80''" demoLib zeroSym] h
  have "Lex demoLib (initLex 0 ''portal 80'') zeroSym =
        (PORT, (initLex 0 ''portal 80'')\<lparr>pos := pos (initLex 0 ''portal 80'') + length ''port''\<rparr>,
         zeroSym)"
    by blast
  then show ?thesis by (simp add: initLex_def)
qed

text \<open>
  C2, as the code has it. Where no keyword stands at the cursor, \<^verbatim>\<open>Lex\<close> scans the
  literal run there and classifies it once the run has ended, in this order: a run with
  one of \<open>- T + Z\<close> is a timestamp, parsed as RFC 3339; otherwise a run with a \<open>:\<close> or a
  \<open>.\<close> is an IP address; otherwise a run that ended with a consumed \<open>m\<close> or \<open>h\<close> is a
  duration; otherwise a run that is not empty is a decimal integer. The token, the value
  and the error recorded for each class are those of \<open>lexLiteral\<close>.
\<close>

theorem Lex_literal_classification:
  "findToken tokens (unread x) = None \<longrightarrow>
     Lex L x yylval =
       lexLiteral L (codeClass (literalRun (unread x))) (literalRun (unread x))
         (x\<lparr>pos := cursor x + length (literalRun (unread x))\<rparr>) yylval"
  by (simp add: Lex_literal)

lemma unread_demo [simp]: "unread (initLex n s\<lparr>pos := p\<rparr>) = drop (skipSpace (drop p s) p) s"
  "cursor (initLex n s\<lparr>pos := p\<rparr>) = skipSpace (drop p s) p"
  "unread (initLex n s) = drop (skipSpace s 0) s" "cursor (initLex n s) = skipSpace s 0"
  by (simp_all add: unread_def cursor_def initLex_def)

theorem Lex_literal_classification_witness:
  "Lex demoLib (initLex 0 ''45m ago'') zeroSym =
     (DURATION, (initLex 0 ''45m ago'')\<lparr>pos := 3\<rparr>, zeroSym\<lparr>dur := 2700000000000\<rparr>)"
proof -
  have h: "findToken tokens (unread (initLex 0 ''45m ago'')) = None"
    by (simp add: tokens_def char_class_defs)
  have run: "literalRun (unread (initLex 0 ''45m ago'')) = ''45m''"
    by (simp add: char_class_defs)
  have cls: "codeClass ''45m'' = DurationLiteral"
    by (simp add: codeClass_def endsByDuration_def char_class_defs)
  from Lex_literal_classification [of "initLex 0 ''45m ago''" demoLib zeroSym] h
  have "Lex demoLib (initLex 0 ''45m ago'') zeroSym =
       lexLiteral demoLib (codeClass (literalRun (unread (initLex 0 ''45m ago''))))
         (literalRun (unread (initLex 0 ''45m ago'')))
         ((initLex 0 ''45m ago'')\<lparr>pos := cursor (initLex 0 ''45m ago'') +
            length (literalRun (unread (initLex 0 ''45m ago'')))\<rparr>) zeroSym"
    by blast
  then show ?thesis
    unfolding run cls
    by (simp add: lexLiteral_def demoLib_def char_class_defs)
qed

text \<open>
  The priority of C2 as it is stated fails: the runs \<open>1-2h\<close> and \<open>1.5h\<close> end with a
  consumed \<open>h\<close>, so the claim makes them durations; the code returns the token of a
  timestamp for the first and takes the second for an IP address (which it is not).
\<close>

theorem Lex_literal_classification_counterexample:
  "endsByDuration (literalRun ''1-2h'') \<and>
   claimedClass (literalRun ''1-2h'') = DurationLiteral \<and>
   fst (Lex demoLib (initLex 0 ''1-2h'') zeroSym) = TIME \<and> TIME \<noteq> DURATION \<and>
   endsByDuration (literalRun ''1.5h'') \<and>
   claimedClass (literalRun ''1.5h'') = DurationLiteral \<and>
   Lex demoLib (initLex 0 ''1.5h'') zeroSym =
     (- 1, Error ((initLex 0 ''1.5h'')\<lparr>pos := 4\<rparr>) (BadIP ''1.5h''), zeroSym\<lparr>ip := []\<rparr>) \<and>
   - 1 \<noteq> DURATION"
proof -
  have r1: "literalRun ''1-2h'' = ''1-2h''" and r2: "literalRun ''1.5h'' = ''1.5h''"
    by (simp_all add: char_class_defs)
  have e1: "endsByDuration ''1-2h''" and e2: "endsByDuration ''1.5h''"
    by (simp_all add: endsByDuration_def char_class_defs)
  have l1: "fst (Lex demoLib (initLex 0 ''1-2h'') zeroSym) = TIME"
    by (simp add: Lex_def initLex_def tokens_def char_class_defs demoLib_def Let_def)
  have l2: "Lex demoLib (initLex 0 ''1.5h'') zeroSym =
     (- 1, Error ((initLex 0 ''1.5h'')\<lparr>pos := 4\<rparr>) (BadIP ''1.5h''), zeroSym\<lparr>ip := []\<rparr>)"
    by (simp add: Lex_def initLex_def tokens_def char_class_defs demoLib_def Let_def
          eval_nat_numeral)
  show ?thesis
    unfolding r1 r2 using e1 e2 l1 l2 by (simp add: claimedClass_def token_defs)
qed

section \<open>Evaluation of time leaves\<close>

lemma mul_int64_wrap:
  "mul_int64 a b = (a * b + 2 ^ 63) mod 2 ^ 64 - 2 ^ 63"
  unfolding mul_int64_def int_word_sint by simp

lemma mul_int64_exact:
  "- (2 ^ 63) \<le> a * b \<Longrightarrow> a * b < 2 ^ 63 \<Longrightarrow> mul_int64 a b = a * b"
  unfolding mul_int64_wrap by (simp add: mod_pos_pos_trivial)

lemma timeQuery_LookupIn_interval:
  "timeQuery_LookupIn B a0 a1 index =
     (case ParseInt (Base (Name index)) of
        None \<Rightarrow> Inl (CouldNotParseBasename (Base (Name index)))
      | Some n \<Rightarrow>
          Inr (if inInterval a0 a1 (Unix_nsec (mul_int64 n 1000))
               then AllPositions B else NoPositions B))"
  by (auto simp: timeQuery_LookupIn_def fileTime_def inInterval_def Let_def Before_def After_def
           split: option.splits)

text \<open>
  C3, as the code has it. The evaluation of a time leaf reads the name of the index and
  nothing else of it. If the base name is no decimal 64-bit integer, the result is an
  error and no set. If it is the integer \<open>n\<close>, the time of the file is taken to be
  \<open>n * 1000\<close> nanoseconds after the Unix epoch, the product being reduced to 64 bits in
  two's complement; the result is the set of all positions when that instant lies within
  \<open>[start - 1 minute, stop + 1 minute]\<close>, a zero bound leaving its side open, and the
  empty set otherwise. As long as \<open>n * 1000\<close> fits into 64 bits, the instant is the
  timestamp of \<open>n\<close> microseconds that the name carries.
\<close>

theorem timeQuery_LookupIn_whole_file:
  "LookupIn B (timeQuery a0 a1) index =
     (case ParseInt (Base (Name index)) of
        None \<Rightarrow> Inl (CouldNotParseBasename (Base (Name index)))
      | Some n \<Rightarrow>
          Inr (if inInterval a0 a1 (Unix_nsec ((n * 1000 + 2 ^ 63) mod 2 ^ 64 - 2 ^ 63))
               then AllPositions B else NoPositions B)) \<and>
   (\<forall>n. ParseInt (Base (Name index)) = Some n \<and> - (2 ^ 63) \<le> n * 1000 \<and> n * 1000 < 2 ^ 63 \<longrightarrow>
        LookupIn B (timeQuery a0 a1) index =
          Inr (if inInterval a0 a1 (Unix_nsec (n * 1000))
               then AllPositions B else NoPositions B)) \<and>
   LookupIn B (timeQuery a0 a1)
     (index\<lparr>PortPositions := f1, VLANPositions := f2, MPLSPositions := f3,
            ProtoPositions := f4, IPPositions := f5\<rparr>) =
   LookupIn B (timeQuery a0 a1) index"
proof (intro conjI allI impI)
  show "LookupIn B (timeQuery a0 a1) index =
     (case ParseInt (Base (Name index)) of
        None \<Rightarrow> Inl (CouldNotParseBasename (Base (Name index)))
      | Some n \<Rightarrow>
          Inr (if inInterval a0 a1 (Unix_nsec ((n * 1000 + 2 ^ 63) mod 2 ^ 64 - 2 ^ 63))
               then AllPositions B else NoPositions B))"
    by (simp add: timeQuery_LookupIn_interval mul_int64_wrap split: option.split)
next
  fix n
  assume "ParseInt (Base (Name index)) = Some n \<and> - (2 ^ 63) \<le> n * 1000 \<and> n * 1000 < 2 ^ 63"
  then show "LookupIn B (timeQuery a0 a1) index =
          Inr (if inInterval a0 a1 (Unix_nsec (n * 1000))
               then AllPositions B else NoPositions B)"
    by (simp add: timeQuery_LookupIn_interval mul_int64_exact)
next
  show "LookupIn B (timeQuery a0 a1)
     (index\<lparr>PortPositions := f1, VLANPositions := f2, MPLSPositions := f3,
            ProtoPositions := f4, IPPositions := f5\<rparr>) =
   LookupIn B (timeQuery a0 a1) index"
    by (simp add: timeQuery_LookupIn_interval split: option.split)
qed

theorem timeQuery_LookupIn_whole_file_witness:
  "LookupIn demoBase (timeQuery 63650404800000000000 0) (demoIndex ''/data/1514808000000000'') =
     Inr True \<and>
   LookupIn demoBase (timeQuery 63650404800000000000 0) (demoIndex ''/data/1514807000000000'') =
     Inr False"
proof -
  have b1: "Base (Name (demoIndex ''/data/1514808000000000'')) = ''1514808000000000''"
    and b2: "Base (Name (demoIndex ''/data/1514807000000000'')) = ''1514807000000000''"
    by (simp_all add: Base_def demoIndex_def)
  have p1: "ParseInt ''1514808000000000'' = Some 1514808000000000"
    and p2: "ParseInt ''1514807000000000'' = Some 1514807000000000"
    by (simp_all add: ParseInt_def isDigit_def decimal_def digitVal_def)
  have h1: "ParseInt (Base (Name (demoIndex ''/data/1514808000000000''))) = Some 1514808000000000 \<and>
            - (2 ^ 63) \<le> (1514808000000000 :: int) * 1000 \<and>
            (1514808000000000 :: int) * 1000 < 2 ^ 63"
    and h2: "ParseInt (Base (Name (demoIndex ''/data/1514807000000000''))) = Some 1514807000000000 \<and>
            - (2 ^ 63) \<le> (1514807000000000 :: int) * 1000 \<and>
            (1514807000000000 :: int) * 1000 < 2 ^ 63"
    by (simp_all add: b1 b2 p1 p2)
  from timeQuery_LookupIn_whole_file
         [of demoBase 63650404800000000000 0 "demoIndex ''/data/1514808000000000''"] h1
  have r1: "LookupIn demoBase (timeQuery 63650404800000000000 0)
              (demoIndex ''/data/1514808000000000'') =
            Inr (if inInterval 63650404800000000000 0 (Unix_nsec (1514808000000000 * 1000))
                 then AllPositions demoBase else NoPositions demoBase)"
    by blast
  from timeQuery_LookupIn_whole_file
         [of demoBase 63650404800000000000 0 "demoIndex ''/data/1514807000000000''"] h2
  have r2: "LookupIn demoBase (timeQuery 63650404800000000000 0)
              (demoIndex ''/data/1514807000000000'') =
            Inr (if inInterval 63650404800000000000 0 (Unix_nsec (1514807000000000 * 1000))
                 then AllPositions demoBase else NoPositions demoBase)"
    by blast
  show ?thesis
    unfolding r1 r2
    by (simp add: Unix_nsec_def inInterval_def IsZero_def Add_def Minute_def demoBase_def)
qed

text \<open>
  C3 as it is stated fails twice. The result is not always one of the two sets: an index
  whose base name is not a number gives an error. And the set is not decided by the
  timestamp of the name: \<open>9223372036854776\<close> microseconds after the Unix epoch, in the
  year 2262, lie after 2018-01-01T12:00:00Z, yet the file is skipped, as the product
  with 1000 wraps around to an instant in the year 1677.
\<close>

theorem timeQuery_LookupIn_counterexample:
  "LookupIn demoBase (timeQuery 63650404800000000000 0) (demoIndex ''/data/index.tmp'') =
     Inl (CouldNotParseBasename ''index.tmp'') \<and>
   LookupIn demoBase (timeQuery 63650404800000000000 0) (demoIndex ''/data/index.tmp'')
     \<noteq> Inr (AllPositions demoBase) \<and>
   LookupIn demoBase (timeQuery 63650404800000000000 0) (demoIndex ''/data/index.tmp'')
     \<noteq> Inr (NoPositions demoBase) \<and>
   ParseInt (Base (Name (demoIndex ''/data/9223372036854776''))) = Some 9223372036854776 \<and>
   inInterval 63650404800000000000 0 (Unix_nsec (9223372036854776 * 1000)) \<and>
   LookupIn demoBase (timeQuery 63650404800000000000 0) (demoIndex ''/data/9223372036854776'') =
     Inr (NoPositions demoBase) \<and>
   NoPositions demoBase \<noteq> AllPositions demoBase"
proof -
  have b: "Base (Name (demoIndex ''/data/index.tmp'')) = ''index.tmp''"
    and b': "Base (Name (demoIndex ''/data/9223372036854776'')) = ''9223372036854776''"
    by (simp_all add: Base_def demoIndex_def)
  have p: "ParseInt ''index.tmp'' = None"
    by (simp add: ParseInt_def isDigit_def)
  have p': "ParseInt ''9223372036854776'' = Some 9223372036854776"
    by (simp add: ParseInt_def isDigit_def decimal_def digitVal_def)
  have i: "inInterval 63650404800000000000 0 (Unix_nsec (9223372036854776 * 1000))"
    by (simp add: inInterval_def IsZero_def Add_def Minute_def Unix_nsec_def)
  have l: "LookupIn demoBase (timeQuery 63650404800000000000 0)
             (demoIndex ''/data/9223372036854776'') = Inr (NoPositions demoBase)"
    by (simp add: timeQuery_LookupIn_interval b' p' mul_int64_wrap inInterval_def IsZero_def
          Add_def Minute_def Unix_nsec_def)
  show ?thesis
    using i l by (simp add: timeQuery_LookupIn_def b b' p p' demoBase_def)
qed

end
